theory Spec2Isabelle
  imports Complex_Main "HOL-Library.Log_Nat"
begin

section \<open>Numbers and optional values\<close>

text \<open>
  The driver (class \<open>RealtimeInteraction\<close>) works on TypeScript values of type
  \<open>number | null\<close> and \<open>string | null\<close>; \<open>null\<close> is \<open>None\<close>. A \<open>number\<close> is a double.
  The clock readings, the byte counts and the quality of the compressor are kept as real
  numbers. The coordinates are the numbers the driver subtracts and compares, and they are
  modelled as what they are, finite binary64 values: \<open>HTMLInputElement.valueAsNumber\<close> is
  a finite double or \<open>NaN\<close>, and \<open>getCurrentPointedPosition\<close> turns \<open>NaN\<close> into \<open>null\<close>.
\<close>

type_synonym number = real

text \<open>JavaScript truthiness of a \<open>string | null\<close>: \<open>null\<close> and the empty string are falsy.\<close>

definition truthy :: "string option \<Rightarrow> bool" where
  "truthy v = (case v of None \<Rightarrow> False | Some t \<Rightarrow> t \<noteq> [])"

subsection \<open>Finite doubles\<close>

text \<open>
  A finite binary64 value is \<open>m * 2 ^ e\<close> for an integer mantissa below \<open>2 ^ 53\<close> in
  absolute value and an exponent from -1074 to 971. \<open>binary64 m e\<close> is that value and
  \<open>valof\<close> reads it as a real number.
\<close>

definition is_binary64 :: "int \<times> int \<Rightarrow> bool" where
  "is_binary64 p = (\<bar>fst p\<bar> < 2 ^ 53 \<and> - 1074 \<le> snd p \<and> snd p \<le> 971)"

typedef float64 = "{p. is_binary64 p}"
  by (rule exI [of _ "(0, 0)"]) (simp add: is_binary64_def)

definition binary64 :: "int \<Rightarrow> int \<Rightarrow> float64" where
  "binary64 m e = Abs_float64 (m, e)"

definition p2 :: "int \<Rightarrow> real" where
  "p2 e = (if 0 \<le> e then 2 ^ nat e else 1 / 2 ^ nat (- e))"

definition valof :: "float64 \<Rightarrow> real" where
  "valof x = real_of_int (fst (Rep_float64 x)) * p2 (snd (Rep_float64 x))"

text \<open>
  The result of an arithmetic operation on finite doubles is a finite double, given by its
  real value, or an infinity.
\<close>

datatype js_number = Num real | PosInfinity | NegInfinity

text \<open>
  \<open>round_even M k\<close> is the integer nearest to \<open>M / 2 ^ k\<close>, the even one of the two when
  \<open>M / 2 ^ k\<close> lies halfway. \<open>rnd M E\<close> rounds \<open>M * 2 ^ E\<close> to 53 significant bits: a
  mantissa of more than 53 bits loses its low bits, rounded to nearest, ties to even.
\<close>

definition round_even :: "int \<Rightarrow> nat \<Rightarrow> int" where
  "round_even M k =
     (let q = M div 2 ^ k; r = M mod 2 ^ k
      in if 2 * r < 2 ^ k then q
         else if 2 ^ k < 2 * r then q + 1
         else if even q then q else q + 1)"

definition rnd :: "int \<Rightarrow> int \<Rightarrow> real" where
  "rnd M E = (let k = nat (bitlen \<bar>M\<bar> - 53)
              in real_of_int (round_even M k) * p2 (E + int k))"

text \<open>
  The subtraction \<open>a - b\<close> of two finite doubles: the exact difference, written with the
  smaller of the two exponents (which is at least -1074, so that only the 53 bits limit the
  result), rounded, and an infinity when the rounded value is beyond the largest double.
\<close>

definition float_sub :: "float64 \<Rightarrow> float64 \<Rightarrow> js_number" where
  "float_sub a b =
     (let (m1, e1) = Rep_float64 a; (m2, e2) = Rep_float64 b;
          E = min e1 e2;
          M = m1 * 2 ^ nat (e1 - E) - m2 * 2 ^ nat (e2 - E);
          v = rnd M E
      in if 2 ^ 1024 \<le> v then PosInfinity
         else if v \<le> - (2 ^ 1024) then NegInfinity
         else Num v)"

text \<open>\<open>Math.abs\<close>, and the comparison \<open>d >= threshold\<close> against a finite double.\<close>

fun math_abs :: "js_number \<Rightarrow> js_number" where
  "math_abs (Num v) = Num \<bar>v\<bar>"
| "math_abs PosInfinity = PosInfinity"
| "math_abs NegInfinity = PosInfinity"

fun js_ge :: "js_number \<Rightarrow> float64 \<Rightarrow> bool" where
  "js_ge (Num v) t = (valof t \<le> v)"
| "js_ge PosInfinity t = True"
| "js_ge NegInfinity t = False"

section \<open>Position-change detector\<close>

text \<open>
  \<open>checkPointedPositionVariation(currentX, currentY, lastX, lastY, threshold = 5)\<close>.
  The last branch of the source reads \<open>currentX!\<close> and so on; it is reached only when all four
  values are present.
\<close>

definition checkPointedPositionVariation ::
  "float64 option \<Rightarrow> float64 option \<Rightarrow> float64 option \<Rightarrow> float64 option \<Rightarrow> float64 \<Rightarrow> bool" where
  "checkPointedPositionVariation currentX currentY lastX lastY threshold =
     (let currNull = (currentX = None \<or> currentY = None);
          lastNull = (lastX = None \<or> lastY = None)
      in if currNull \<and> lastNull then False
         else if \<not> currNull \<and> lastNull then True
         else if currNull \<and> \<not> lastNull then True
         else (let diffX = math_abs (float_sub (the currentX) (the lastX));
                   diffY = math_abs (float_sub (the currentY) (the lastY))
               in js_ge diffX threshold \<or> js_ge diffY threshold))"

text \<open>The default value of the parameter \<open>threshold\<close>, in pixels.\<close>

definition default_threshold :: float64 where
  "default_threshold = binary64 5 0"

text \<open>
  A coordinate pair as the driver stores and passes it: \<open>{x: number | null, y: number | null}\<close>.
  The comment in the source: if even just one of the two coordinates is null, the user is not
  pointing. \<open>coords_absent\<close> is the expression bound to \<open>currNull\<close> and \<open>lastNull\<close>.
\<close>

type_synonym coords = "float64 option \<times> float64 option"

definition coords_absent :: "coords \<Rightarrow> bool" where
  "coords_absent c = (fst c = None \<or> snd c = None)"

text \<open>The call as \<open>sendPointedPositionIfNecessary\<close> makes it, with four arguments.\<close>

definition hasPositionChanged :: "coords \<Rightarrow> coords \<Rightarrow> bool" where
  "hasPositionChanged current lastc =
     checkPointedPositionVariation (fst current) (snd current) (fst lastc) (snd lastc) default_threshold"

text \<open>
  The initial value of the field \<open>lastCoords\<close>, and the value \<open>resetLastCoords\<close> stores:
  \<open>{ lastX: 100000, lastY: 100000 }\<close>, commented as placeholders.
\<close>

definition initial_lastCoords :: coords where
  "initial_lastCoords = (Some (binary64 100000 0), Some (binary64 100000 0))"

section \<open>Messages, effects and the driver's state\<close>

text \<open>
  What the driver sends on the data channel, \<open>dataChannel.send(JSON.stringify(...))\<close>.
  A \<open>conversation.item.create\<close> always carries an item of type \<open>message\<close> and role
  \<open>user\<close>, so only its content list is kept. A \<open>session.update\<close> carries either the value of
  \<open>createSessionConfig(lang)\<close> or the object \<open>{type: "realtime", output_modalities: [...]}\<close>.
  A \<open>response.create\<close> carries an optional \<open>response\<close> object with the optional fields
  \<open>output_modalities\<close> and \<open>instructions\<close>.
\<close>

datatype content_part = InputText string | InputImage string

text \<open>
  The argument of \<open>createSessionConfig\<close>: the name of a language, or a member inherited from
  \<open>Object.prototype\<close> that \<open>mapLangCodeToName\<close> can return.
\<close>

datatype lang_name = LangName string | InheritedMember string

datatype session_payload = SessionConfig lang_name | SessionModalities "string list"

record response_params =
  output_modalities :: "string list option"
  instructions :: "string option"

datatype client_event =
    SessionUpdate session_payload
  | ConversationItemCreate "content_part list"
  | ResponseCreate "response_params option"

text \<open>
  Thrown values and rejected promises. The message of the engine's \<open>TypeError\<close> for a property
  read on \<open>null\<close> is not fixed by the language; the model carries the property name.
\<close>

datatype exn = Error string | TypeError string | Rejection string

definition exn_message :: "exn \<Rightarrow> string" where
  "exn_message e = (case e of Error m \<Rightarrow> m | TypeError m \<Rightarrow> m | Rejection m \<Rightarrow> m)"

text \<open>
  The effects of the driver, in program order: messages sent on the data channel, the release
  steps of \<open>stopSession\<close>, console output, and the two field writes whose order against the
  sends the specification talks about (\<open>lastCoords\<close> and \<open>requestStartTime\<close>).
\<close>

datatype event =
    Sent client_event
  | DataChannelClosed
  | TracksStopped
  | PeerConnectionClosed
  | AudioElementRemoved
  | Console string
  | ConsoleResponseTime number
  | LastCoordsWritten coords
  | TimerStarted number

text \<open>
  The fields of \<open>UIElements\<close> the driver reads or writes: \<open>disabled\<close> of the two buttons,
  \<open>textContent\<close> of the three labels, \<open>valueAsNumber\<close> of the two coordinate inputs (\<open>None\<close>
  is \<open>NaN\<close>) and \<open>value\<close> of the hotspot selector. The CSS class changes are left out.
\<close>

record ui_elements =
  startBtn_disabled :: bool
  stopBtn_disabled :: bool
  sessionState_text :: string
  audioState_text :: string
  modelResponse_text :: string
  xCoord_valueAsNumber :: "float64 option"
  yCoord_valueAsNumber :: "float64 option"
  hotspotSelect_value :: string

text \<open>
  The fields of \<open>RealtimeInteraction\<close> that the methods below read or write, and the trace
  of effects (\<open>ephemeralKey\<close> belongs to the connection setup, which is not modelled). The
  four transport objects are opaque: only whether each is \<open>null\<close> matters to the driver, so
  each is a handle or \<open>None\<close>.
\<close>

type_synonym handle = nat

record state =
  peerConnection :: "handle option"
  audioElement :: "handle option"
  localStream :: "handle option"
  dataChannel :: "handle option"
  elements :: "ui_elements option"
  audioResponsesOn :: bool
  requestStartTime :: "number option"
  responseStarted :: bool
  grayScaleBase64Template :: "string option"
  lastCoords :: coords
  imgDimensions :: "number \<times> number"
  trace :: "event list"

definition emit :: "event \<Rightarrow> state \<Rightarrow> state" where
  "emit ev s = s\<lparr>trace := trace s @ [ev]\<rparr>"

text \<open>\<open>this.dataChannel.send(JSON.stringify(m))\<close> on a data channel that is not \<open>null\<close>.\<close>

definition send :: "client_event \<Rightarrow> state \<Rightarrow> state" where
  "send m s = emit (Sent m) s"

text \<open>The messages sent on the data channel, read off a trace.\<close>

fun sent :: "event list \<Rightarrow> client_event list" where
  "sent [] = []"
| "sent (Sent m # evs) = m # sent evs"
| "sent (_ # evs) = sent evs"

subsection \<open>UI handling\<close>

definition handleSessionState :: "bool \<Rightarrow> state \<Rightarrow> state" where
  "handleSessionState st s =
     (case elements s of
        None \<Rightarrow> emit (Console ''UI elements not initialized'') s
      | Some el \<Rightarrow>
          if st then
            s\<lparr>elements := Some (el\<lparr>sessionState_text := ''Session on'',
                                    startBtn_disabled := True, stopBtn_disabled := False\<rparr>)\<rparr>
          else
            s\<lparr>elements := Some (el\<lparr>modelResponse_text := ''The model response will appear here...'',
                                    sessionState_text := ''Session off'',
                                    startBtn_disabled := False, stopBtn_disabled := True\<rparr>)\<rparr>)"

definition handleAudioState :: "bool \<Rightarrow> state \<Rightarrow> state" where
  "handleAudioState st s =
     (case elements s of
        None \<Rightarrow> emit (Console ''UI elements not initialized'') s
      | Some el \<Rightarrow>
          if st then
            s\<lparr>audioResponsesOn := True, elements := Some (el\<lparr>audioState_text := ''Audio on''\<rparr>)\<rparr>
          else
            s\<lparr>audioResponsesOn := False, elements := Some (el\<lparr>audioState_text := ''Audio off''\<rparr>)\<rparr>)"

text \<open>\<open>logStatus(component, "error", detail)\<close>; the driver calls it with no other status.\<close>

definition logStatus_error :: "string \<Rightarrow> string \<Rightarrow> state \<Rightarrow> state" where
  "logStatus_error component detail s =
     emit (Console (''['' @ component @ ''] Error '' @ detail)) s"

subsection \<open>Session teardown\<close>

definition stopSession :: "state \<Rightarrow> state" where
  "stopSession s =
     (let s1 = (if dataChannel s \<noteq> None
                then (emit DataChannelClosed s)\<lparr>dataChannel := None\<rparr> else s);
          s2 = (if localStream s1 \<noteq> None
                then (emit TracksStopped s1)\<lparr>localStream := None\<rparr> else s1);
          s3 = (if peerConnection s2 \<noteq> None
                then (emit PeerConnectionClosed s2)\<lparr>peerConnection := None\<rparr> else s2);
          s4 = (if audioElement s3 \<noteq> None
                then (emit AudioElementRemoved s3)\<lparr>audioElement := None\<rparr> else s3);
          s5 = emit (Console ''Session closed'') s4
      in handleAudioState False (handleSessionState False s5))"

definition resetLastCoords :: "state \<Rightarrow> state" where
  "resetLastCoords s = s\<lparr>lastCoords := (Some (binary64 100000 0), Some (binary64 100000 0))\<rparr>"

text \<open>The field initialisers of the class, and \<open>init\<close> once the page's elements are bound.\<close>

definition initial_state :: state where
  "initial_state =
     \<lparr>peerConnection = None, audioElement = None, localStream = None, dataChannel = None,
      elements = None, audioResponsesOn = False, requestStartTime = None,
      responseStarted = False, grayScaleBase64Template = None,
      lastCoords = initial_lastCoords, imgDimensions = (-1, -1), trace = []\<rparr>"

section \<open>The environment of one handler run\<close>

text \<open>
  Everything the driver obtains from the browser while one handler runs: the clock, the three
  fetches of the drawing's files, and the image primitives of \<open>utils.ts\<close> that decode, draw
  and encode through the canvas (\<open>Inl\<close> is a rejected promise or a thrown error). The driver
  uses of \<open>data.json\<close> its JSON text and \<open>metadata.lang\<close>: \<open>data_metadata_lang\<close> is \<open>None\<close>
  when \<open>metadata\<close> is missing and \<open>Some None\<close> when \<open>lang\<close> is.
\<close>

record blob =
  blob_size :: nat
  blob_data :: string

record file_data =
  data_json :: string
  data_metadata_lang :: "string option option"

record env =
  now :: number
  getFileData :: "exn + file_data"
  getFileTemplate :: "exn + string"
  getFileColorMap :: "exn + string"
  base64ToBlob :: "string \<Rightarrow> exn + blob"
  reduceResolution :: "blob \<Rightarrow> exn + blob"
  toWebp :: "blob \<Rightarrow> exn + blob"
  compressWebpBlob :: "blob \<Rightarrow> number \<Rightarrow> exn + blob"
  imageToBase64 :: "blob \<Rightarrow> exn + string"
  base64ToGrayScale :: "string \<Rightarrow> exn + string"
  getImgDimensions :: "string \<Rightarrow> exn + number \<times> number"
  drawMarker :: "string \<Rightarrow> float64 \<Rightarrow> float64 \<Rightarrow> number \<Rightarrow> exn + string"

section \<open>Image pipeline\<close>

text \<open>\<open>blob.size\<close> is a number of bytes.\<close>

definition blobSizeInKB :: "blob \<Rightarrow> number" where
  "blobSizeInKB b = real (blob_size b) / 1024"

definition checkBlobSize :: "blob \<Rightarrow> number \<Rightarrow> bool" where
  "checkBlobSize b max_size = (let imageSize = blobSizeInKB b in imageSize \<le> max_size)"

text \<open>
  \<open>drawPointedPosition(base64Img, x, y, radius = 9)\<close>: the first statement returns the input
  when a coordinate is \<open>null\<close>; the rest loads the image and draws on a canvas, which is
  \<open>drawMarker\<close> of the environment.
\<close>

definition drawPointedPosition ::
  "env \<Rightarrow> string \<Rightarrow> float64 option \<Rightarrow> float64 option \<Rightarrow> number \<Rightarrow> exn + string" where
  "drawPointedPosition en base64Img x y radius =
     (if x = None \<or> y = None then Inr base64Img
      else drawMarker en base64Img (the x) (the y) radius)"

definition default_radius :: number where
  "default_radius = 9"

text \<open>
  The \<open>while (quality >= 0.0)\<close> loop of \<open>getSendableImage\<close>, with the local constant
  \<open>maxImageSize\<close> and the converted blob it closes over as parameters. The quality is a real
  number here, so the steps are exactly 0.9, 0.8, ..., 0.0. In double precision the values
  drift upwards by less than \<open>1e-15\<close> (the tenth is about \<open>1.4e-16\<close>, the eleventh is
  negative), so the body runs ten times there as well.
\<close>

function compress_loop :: "env \<Rightarrow> blob \<Rightarrow> number \<Rightarrow> number \<Rightarrow> exn + string option" where
  "compress_loop en webpBlob maxImageSize quality =
     (if quality \<ge> 0 then
        (case compressWebpBlob en webpBlob quality of
           Inl err \<Rightarrow> Inl err
         | Inr compressedBlob \<Rightarrow>
             if checkBlobSize compressedBlob maxImageSize then
               (case imageToBase64 en compressedBlob of
                  Inl err \<Rightarrow> Inl err
                | Inr b64 \<Rightarrow> Inr (Some b64))
             else compress_loop en webpBlob maxImageSize (quality - 0.1))
      else Inr None)"
  by pat_completeness auto
termination
proof (relation "measure (\<lambda>(en, webpBlob, maxImageSize, quality). nat (\<lfloor>quality * 10\<rfloor> + 1))")
  show "wf (measure (\<lambda>(en :: env, webpBlob :: blob, maxImageSize :: number, quality :: number).
          nat (\<lfloor>quality * 10\<rfloor> + 1)))"
    by simp
next
  fix en :: env and webpBlob :: blob and maxImageSize quality :: number
  assume nonneg: "0 \<le> quality"
  have step: "(quality - 0.1) * 10 = quality * 10 - 1"
    by (simp add: algebra_simps)
  have fl: "\<lfloor>quality * 10 - 1\<rfloor> = \<lfloor>quality * 10\<rfloor> - 1"
    by linarith
  have "0 \<le> \<lfloor>quality * 10\<rfloor>"
    using nonneg by simp
  then have "nat (\<lfloor>(quality - 0.1) * 10\<rfloor> + 1) < nat (\<lfloor>quality * 10\<rfloor> + 1)"
    unfolding step fl by simp
  then show "((en, webpBlob, maxImageSize, quality - 0.1), (en, webpBlob, maxImageSize, quality))
      \<in> measure (\<lambda>(en, webpBlob, maxImageSize, quality). nat (\<lfloor>quality * 10\<rfloor> + 1))"
    by simp
qed

text \<open>
  The \<open>try\<close> block of \<open>getSendableImage\<close>, and the function with its \<open>catch\<close>, which rethrows
  every error as \<open>Error('Image processing failed:' + message)\<close>.
\<close>

definition getSendableImage_try :: "env \<Rightarrow> string \<Rightarrow> exn + string option" where
  "getSendableImage_try en initialBase64Image =
     (let maxImageSize = 220 in
      case base64ToBlob en initialBase64Image of
        Inl err \<Rightarrow> Inl err
      | Inr blob \<Rightarrow>
      (case reduceResolution en blob of
        Inl err \<Rightarrow> Inl err
      | Inr reducedDimBlob \<Rightarrow>
      (case toWebp en reducedDimBlob of
        Inl err \<Rightarrow> Inl err
      | Inr webpBlob \<Rightarrow>
          if checkBlobSize webpBlob maxImageSize then
            (case imageToBase64 en webpBlob of
               Inl err \<Rightarrow> Inl err
             | Inr b64 \<Rightarrow> Inr (Some b64))
          else compress_loop en webpBlob maxImageSize 0.9)))"

definition getSendableImage :: "env \<Rightarrow> string \<Rightarrow> exn + string option" where
  "getSendableImage en initialBase64Image =
     (case getSendableImage_try en initialBase64Image of
        Inl err \<Rightarrow> Inl (Error (''Image processing failed:'' @ exn_message err))
      | Inr r \<Rightarrow> Inr r)"

section \<open>Session bootstrap: configuration and drawing files\<close>

text \<open>
  \<open>mapLangCodeToName\<close> of \<open>utils.ts\<close>: \<open>map[langCode] || "English (US)"\<close> on an object
  literal. The lookup finds the six keys of the table and also the members every object
  inherits from \<open>Object.prototype\<close>, whose values are functions or objects, hence truthy.
\<close>

definition object_prototype_keys :: "string list" where
  "object_prototype_keys =
     [''constructor'', ''__defineGetter__'', ''__defineSetter__'', ''hasOwnProperty'',
      ''__lookupGetter__'', ''__lookupSetter__'', ''isPrototypeOf'', ''propertyIsEnumerable'',
      ''toString'', ''valueOf'', ''__proto__'', ''toLocaleString'']"

definition mapLangCodeToName :: "string \<Rightarrow> lang_name" where
  "mapLangCodeToName langCode =
     (case map_of [(''en-US'', ''English (US)''), (''en-GB'', ''English (UK)''),
                   (''en-AU'', ''English (Australia)''), (''it-IT'', ''Italian''),
                   (''fr-FR'', ''French''), (''es-ES'', ''Spanish'')] langCode of
        Some name \<Rightarrow> LangName name
      | None \<Rightarrow>
          if langCode \<in> set object_prototype_keys then InheritedMember langCode
          else LangName ''English (US)'')"

text \<open>
  \<open>initSession\<close> is an \<open>async\<close> method that its caller does not await. \<open>initSession_begin\<close>
  is its part before the first \<open>await\<close>, the guard on the data channel, and
  \<open>initSession_resume\<close> is the rest, which runs when the fetch of \<open>data.json\<close> has
  completed, on the state the driver has by then. A data channel that is \<open>null\<close> by then
  makes \<open>send\<close> throw in a promise nobody handles, which leaves the state as it is.
  \<open>initSession\<close> is the two parts run without anything in between.
\<close>

definition initSession_begin :: "state \<Rightarrow> state" where
  "initSession_begin s = (if dataChannel s = None then stopSession s else s)"

definition initSession_resume :: "env \<Rightarrow> state \<Rightarrow> state" where
  "initSession_resume en s =
     (let warned = emit (Console ''Could not determine language from data.json, using English.'') s;
          (lang, s1) =
            (case getFileData en of
               Inl err \<Rightarrow> (LangName ''English (US)'', warned)
             | Inr d \<Rightarrow>
                 (case data_metadata_lang d of
                    None \<Rightarrow> (LangName ''English (US)'', warned)
                  | Some l \<Rightarrow>
                      (let langCode = (if truthy l then the l else ''en-US'')
                       in (mapLangCodeToName langCode, s))))
      in if dataChannel s1 = None then s1
         else send (SessionUpdate (SessionConfig lang)) s1)"

definition initSession :: "env \<Rightarrow> state \<Rightarrow> state" where
  "initSession en s =
     (if dataChannel s = None then stopSession s else initSession_resume en s)"

definition sendData :: "string \<Rightarrow> state \<Rightarrow> state" where
  "sendData d s =
     (if dataChannel s = None then stopSession s
      else emit (Console ''data.json file sent to the model'')
             (send (ConversationItemCreate [InputText ''Tactile drawing data:'', InputText d]) s))"

definition sendImage :: "string \<Rightarrow> string \<Rightarrow> state \<Rightarrow> state" where
  "sendImage base64Image ty s =
     (if dataChannel s = None then stopSession s
      else
        (let textMsg = (if ty = ''template'' then ''Tactile drawing template image:''
                        else if ty = ''colorMap'' then ''Tactile drawing color map image:''
                        else [])
         in emit (Console (''Image '' @ ty @ '' file sent to the model''))
              (send (ConversationItemCreate [InputText textMsg, InputImage base64Image]) s)))"

text \<open>
  The \<open>try\<close> block of \<open>sendFileContent\<close>: the state it has reached, and the error when it
  stopped by one. The texts of the three messages are kept without their layout whitespace.
\<close>

definition sendFileContent_try :: "env \<Rightarrow> state \<Rightarrow> exn option \<times> state" where
  "sendFileContent_try en s =
     (case getFileData en of Inl err \<Rightarrow> (Some err, s) | Inr d \<Rightarrow>
     (case getFileTemplate en of Inl err \<Rightarrow> (Some err, s) | Inr templateOutput \<Rightarrow>
     (case getFileColorMap en of Inl err \<Rightarrow> (Some err, s) | Inr colorMapOutput \<Rightarrow>
        (let s1 = sendData (data_json d) s in
         case getSendableImage en templateOutput of Inl err \<Rightarrow> (Some err, s1)
         | Inr finalTemplateOutput \<Rightarrow>
        (case getSendableImage en colorMapOutput of Inl err \<Rightarrow> (Some err, s1)
         | Inr finalColorMapOutput \<Rightarrow>
           if \<not> truthy finalTemplateOutput then
             (Some (Error ''The template image is too large to be sent''), s1)
           else if \<not> truthy finalColorMapOutput then
             (Some (Error ''The color map image is too large to be sent''), s1)
           else
             (case base64ToGrayScale en (the finalTemplateOutput) of Inl err \<Rightarrow> (Some err, s1)
              | Inr gray \<Rightarrow>
                (let s2 = s1\<lparr>grayScaleBase64Template := Some gray\<rparr> in
                 case getImgDimensions en (the finalTemplateOutput) of Inl err \<Rightarrow> (Some err, s2)
                 | Inr dims \<Rightarrow>
                   (let s3 = s2\<lparr>imgDimensions := dims\<rparr>;
                        s4 = sendImage (the finalTemplateOutput) ''template'' s3;
                        s5 = sendImage (the finalColorMapOutput) ''colorMap'' s4
                    in (None, s5)))))))))"

text \<open>
  \<open>sendFileContent\<close> is not awaited by its caller either: \<open>sendFileContent_begin\<close> is the
  guard before its first \<open>await\<close>, \<open>sendFileContent_resume\<close> the \<open>try\<close> block with its
  \<open>catch\<close> (the awaits inside it taken in one step), and \<open>sendFileContent\<close> the two run
  without anything in between.
\<close>

definition sendFileContent_begin :: "state \<Rightarrow> state" where
  "sendFileContent_begin s = (if dataChannel s = None then stopSession s else s)"

definition sendFileContent_resume :: "env \<Rightarrow> state \<Rightarrow> state" where
  "sendFileContent_resume en s =
     (case sendFileContent_try en s of
        (None, s') \<Rightarrow> s'
      | (Some err, s') \<Rightarrow>
          stopSession
            (emit (Console (''Failed to prepare or send file content: '' @ exn_message err)) s'))"

definition sendFileContent :: "env \<Rightarrow> state \<Rightarrow> state" where
  "sendFileContent en s =
     (if dataChannel s = None then stopSession s else sendFileContent_resume en s)"

section \<open>Pointed position\<close>

definition getCurrentPointedPosition :: "state \<Rightarrow> exn + coords" where
  "getCurrentPointedPosition s =
     (case elements s of
        None \<Rightarrow> Inl (Error ''UI elements not initialized'')
      | Some el \<Rightarrow> Inr (xCoord_valueAsNumber el, yCoord_valueAsNumber el))"

definition getCurrentHotspot :: "state \<Rightarrow> exn + string option" where
  "getCurrentHotspot s =
     (case elements s of
        None \<Rightarrow> Inl (Error ''UI elements not initialized'')
      | Some el \<Rightarrow>
          Inr (if hotspotSelect_value el = ''null'' then None else Some (hotspotSelect_value el)))"

definition getLastCoords :: "state \<Rightarrow> coords" where
  "getLastCoords s = (fst (lastCoords s), snd (lastCoords s))"

definition not_pointing_content :: "content_part list" where
  "not_pointing_content = [InputText ''The user is not pointing any position.'']"

definition pointing_content :: "string \<Rightarrow> string option \<Rightarrow> content_part list" where
  "pointing_content imgWithPosition currentHotspot =
     [InputText ''The user is pointing the position represented in this image:'',
      InputImage imgWithPosition,
      InputText (if \<not> truthy currentHotspot then []
                 else ''It correspond to this hotspot: '' @ the currentHotspot)]"

text \<open>
  \<open>sendImgWithPositionAndHotspot\<close>: the state reached, and the error when it threw. The texts
  of the content are kept without their layout whitespace.
\<close>

definition sendImgWithPositionAndHotspot ::
  "env \<Rightarrow> float64 option \<Rightarrow> float64 option \<Rightarrow> string option \<Rightarrow> state \<Rightarrow> exn option \<times> state" where
  "sendImgWithPositionAndHotspot en currentX currentY currentHotspot s =
     (if \<not> truthy (grayScaleBase64Template s) then
        (Some (Error ''Gray scale image template missing''), s)
      else if dataChannel s = None then (Some (Error ''Data channel missing''), s)
      else if currentX = None \<or> currentY = None then
        (None, emit (Console ''User pointed position sent to the model'')
                 (send (ConversationItemCreate not_pointing_content) s))
      else
        (case drawPointedPosition en (the (grayScaleBase64Template s)) currentX currentY
                default_radius of
           Inl err \<Rightarrow> (Some err, s)
         | Inr imgWithPosition \<Rightarrow>
             (None, emit (Console ''User pointed position sent to the model'')
                      (send (ConversationItemCreate
                               (pointing_content imgWithPosition currentHotspot)) s))))"

text \<open>
  The \<open>try\<close> block of \<open>sendPointedPositionIfNecessary\<close>, then the function with its
  \<open>catch\<close>. The \<open>catch\<close> logs the error under \<open>if (err)\<close>; every value thrown in the block
  is an \<open>Error\<close> object, an event object or a non-empty text, hence truthy.
\<close>

definition sendPointedPositionIfNecessary_try :: "env \<Rightarrow> state \<Rightarrow> exn option \<times> state" where
  "sendPointedPositionIfNecessary_try en s =
     (case getCurrentPointedPosition s of Inl err \<Rightarrow> (Some err, s) | Inr (currentX, currentY) \<Rightarrow>
     (case getCurrentHotspot s of Inl err \<Rightarrow> (Some err, s) | Inr currentHotspot \<Rightarrow>
        (let (lastX, lastY) = getLastCoords s;
             positionChanged =
               checkPointedPositionVariation currentX currentY lastX lastY default_threshold
         in if positionChanged then
              sendImgWithPositionAndHotspot en currentX currentY currentHotspot
                (emit (LastCoordsWritten (currentX, currentY))
                   (s\<lparr>lastCoords := (currentX, currentY)\<rparr>))
            else (None, s))))"

definition sendPointedPositionIfNecessary :: "env \<Rightarrow> state \<Rightarrow> state" where
  "sendPointedPositionIfNecessary en s =
     (case sendPointedPositionIfNecessary_try en s of
        (None, s') \<Rightarrow> s'
      | (Some err, s') \<Rightarrow> stopSession (emit (Console (exn_message err)) s'))"

section \<open>Audio-output toggle\<close>

definition audio_already_enabled_instructions :: string where
  "audio_already_enabled_instructions =
     ''- Do not call any function. - Only notify the user that audio is already enabled. - Keep the response very short.''"

definition audio_already_disabled_instructions :: string where
  "audio_already_disabled_instructions =
     ''- Do not call any function. - Only notify the user that audio is already disabled. - Keep the response very short.''"

definition audio_disabled_instructions :: string where
  "audio_disabled_instructions =
     ''- Do not call any function. - Only notify the user that audio has been disabled. - Keep the response very short.''"

definition enableAudio :: "state \<Rightarrow> state" where
  "enableAudio s =
     (let s0 = emit (Console ''Called function enableAudio()'') s in
      if dataChannel s0 = None then stopSession s0
      else if audioResponsesOn s0 then
        send (ResponseCreate (Some \<lparr>output_modalities = None,
                instructions = Some audio_already_enabled_instructions\<rparr>)) s0
      else
        send (ResponseCreate None)
          (handleAudioState True
             (send (SessionUpdate (SessionModalities [''audio''])) s0)))"

definition feedbackAudioDisabled :: "state \<Rightarrow> state" where
  "feedbackAudioDisabled s =
     (if dataChannel s = None then stopSession s
      else send (ResponseCreate (Some \<lparr>output_modalities = Some [''audio''],
                   instructions = Some audio_disabled_instructions\<rparr>)) s)"

definition disableAudio :: "state \<Rightarrow> state" where
  "disableAudio s =
     (let s0 = emit (Console ''Called function disableAudio()'') s in
      if dataChannel s0 = None then stopSession s0
      else if \<not> audioResponsesOn s0 then
        send (ResponseCreate (Some \<lparr>output_modalities = None,
                instructions = Some audio_already_disabled_instructions\<rparr>)) s0
      else
        feedbackAudioDisabled
          (handleAudioState False
             (send (SessionUpdate (SessionModalities [''text''])) s0)))"

definition handleFunctionCalls :: "string option \<Rightarrow> state \<Rightarrow> state" where
  "handleFunctionCalls name s =
     (if name = Some ''wake_word'' then enableAudio s
      else if name = Some ''sleep_word'' then disableAudio s
      else s)"

section \<open>Response time\<close>

definition startResponseTimer :: "env \<Rightarrow> state \<Rightarrow> state" where
  "startResponseTimer en s =
     emit (TimerStarted (now en)) (s\<lparr>requestStartTime := Some (now en), responseStarted := False\<rparr>)"

definition printResponseTime :: "env \<Rightarrow> state \<Rightarrow> state" where
  "printResponseTime en s =
     (if \<not> responseStarted s \<and> requestStartTime s \<noteq> None then
        (let latency = now en - the (requestStartTime s)
         in (emit (ConsoleResponseTime latency) s)\<lparr>responseStarted := True\<rparr>)
      else s)"

section \<open>Inbound messages\<close>

text \<open>
  The parsed \<open>RealtimeMessage\<close>, with the fields the handler reads. \<open>msg.error\<close> is a text
  for \<open>invalid_request_error\<close> and an object with the optional texts \<open>message\<close> and \<open>code\<close>
  for \<open>error\<close>, as the realtime protocol sends them. Of \<open>msg.response\<close> the handler reads
  \<open>status\<close> and \<open>status_details.error.message\<close> (\<open>None\<close>: no error object).
\<close>

datatype error_field = ErrorText string | ErrorObject "string option" "string option"

record response_info =
  response_status :: "string option"
  response_error :: "string option option"

record realtime_message =
  msg_type :: string
  msg_error :: "error_field option"
  msg_delta :: "string option"
  msg_text :: "string option"
  msg_transcript :: "string option"
  msg_name :: "string option"
  msg_response :: "response_info option"

text \<open>\<open>e.data\<close>: text that \<open>JSON.parse\<close> rejects with the given message, or a parsed message.\<close>

datatype inbound = Unparsable string | Parsed realtime_message

definition error_message :: "error_field option \<Rightarrow> string option" where
  "error_message e = (case e of Some (ErrorObject m c) \<Rightarrow> m | _ \<Rightarrow> None)"

definition error_code :: "error_field \<Rightarrow> string option" where
  "error_code e = (case e of ErrorObject m c \<Rightarrow> c | ErrorText t \<Rightarrow> None)"

definition error_truthy :: "error_field option \<Rightarrow> bool" where
  "error_truthy e = (case e of None \<Rightarrow> False | Some (ErrorText t) \<Rightarrow> t \<noteq> [] | Some (ErrorObject m c) \<Rightarrow> True)"

definition error_as_text :: "error_field \<Rightarrow> string" where
  "error_as_text e = (case e of ErrorText t \<Rightarrow> t | ErrorObject m c \<Rightarrow> ''[object Object]'')"

definition text_or_undefined :: "string option \<Rightarrow> string" where
  "text_or_undefined v = (case v of None \<Rightarrow> ''undefined'' | Some t \<Rightarrow> t)"

definition append_modelResponse :: "string option \<Rightarrow> state \<Rightarrow> state" where
  "append_modelResponse delta s =
     (case elements s of
        None \<Rightarrow> s
      | Some el \<Rightarrow>
          if truthy delta
          then s\<lparr>elements := Some (el\<lparr>modelResponse_text := modelResponse_text el @ the delta\<rparr>)\<rparr>
          else s)"

text \<open>
  The \<open>switch\<close> of \<open>handleDataChannelMessages\<close>: the state reached when the handler's own
  run ends, and the error when a statement threw. What the handler awaits is part of its run;
  of the two calls that \<open>session.created\<close> does not await, only the parts before their first
  \<open>await\<close> are, and their continuations \<open>initSession_resume\<close> and \<open>sendFileContent_resume\<close>
  run later. The \<open>input_audio_buffer.committed\<close> branch is the run in which no other handler
  runs while the marker is drawn; \<open>committed_begin\<close> and \<open>committed_resume\<close> below are the two
  parts of that run, for the runs in which one does.
\<close>

definition handleDataChannelMessages_try ::
  "env \<Rightarrow> realtime_message \<Rightarrow> state \<Rightarrow> exn option \<times> state" where
  "handleDataChannelMessages_try en msg s =
     (let ty = msg_type msg in
      if ty = ''session.created'' then
        (None, sendFileContent_begin (initSession_begin
                 (handleSessionState True (emit (Console ''Session ready'') s))))
      else if ty = ''invalid_request_error'' then
        (None, stopSession
                 (if error_truthy (msg_error msg)
                  then logStatus_error ''DataChannel'' (error_as_text (the (msg_error msg))) s
                  else s))
      else if ty = ''error'' then
        (let errorMsg = error_message (msg_error msg);
             s1 = (if truthy errorMsg then logStatus_error ''DataChannel'' (the errorMsg) s else s)
         in case msg_error msg of
              None \<Rightarrow> (Some (TypeError ''code''), s1)
            | Some e \<Rightarrow>
                if error_code e \<noteq> Some ''conversation_already_has_active_response''
                then (None, stopSession s1)
                else (None, s1))
      else if ty = ''input_audio_buffer.committed'' then
        (let s1 = sendPointedPositionIfNecessary en s in
         if dataChannel s1 = None then (Some (TypeError ''send''), s1)
         else (None, startResponseTimer en (send (ResponseCreate None) s1)))
      else if ty = ''response.content_part.added'' then
        (None, case elements s of
                 None \<Rightarrow> s
               | Some el \<Rightarrow> s\<lparr>elements := Some (el\<lparr>modelResponse_text := []\<rparr>)\<rparr>)
      else if ty = ''response.output_text.delta'' then
        (None, append_modelResponse (msg_delta msg) (printResponseTime en s))
      else if ty = ''response.output_audio_transcript.delta'' then
        (None, append_modelResponse (msg_delta msg) (printResponseTime en s))
      else if ty = ''response.output_text.done'' then
        (None, emit (Console (''Response: '' @ text_or_undefined (msg_text msg))) s)
      else if ty = ''response.output_audio_transcript.done'' then
        (None, emit (Console (''Response: '' @ text_or_undefined (msg_transcript msg))) s)
      else if ty = ''response.done'' then
        (case msg_response msg of
           None \<Rightarrow> (None, s)
         | Some r \<Rightarrow>
             if response_status r = Some ''failed'' then
               (None, stopSession
                        (case response_error r of
                           None \<Rightarrow> s
                         | Some m \<Rightarrow>
                             logStatus_error ''DataChannel'' (case m of None \<Rightarrow> [] | Some t \<Rightarrow> t) s))
             else (None, s))
      else if ty = ''response.function_call_arguments.done'' then
        (None, handleFunctionCalls (msg_name msg) s)
      else (None, s))"

definition handleDataChannelMessages :: "env \<Rightarrow> inbound \<Rightarrow> state \<Rightarrow> state" where
  "handleDataChannelMessages en e s =
     (case e of
        Unparsable m \<Rightarrow> stopSession (logStatus_error ''DataChannel'' m s)
      | Parsed msg \<Rightarrow>
          (case handleDataChannelMessages_try en msg s of
             (None, s') \<Rightarrow> s'
           | (Some err, s') \<Rightarrow> stopSession (logStatus_error ''DataChannel'' (exn_message err) s')))"

section \<open>Suspension while the marker is drawn\<close>








section \<open>Vocabulary of the properties\<close>

text \<open>
  What the two UI handlers and \<open>stopSession\<close> add to the trace, as a function of the state
  they start from.
\<close>

definition ui_events :: "state \<Rightarrow> event list" where
  "ui_events s = (if elements s = None then [Console ''UI elements not initialized''] else [])"

definition release_events :: "state \<Rightarrow> event list" where
  "release_events s =
     (if dataChannel s \<noteq> None then [DataChannelClosed] else []) @
     (if localStream s \<noteq> None then [TracksStopped] else []) @
     (if peerConnection s \<noteq> None then [PeerConnectionClosed] else []) @
     (if audioElement s \<noteq> None then [AudioElementRemoved] else []) @
     [Console ''Session closed''] @ ui_events s @ ui_events s"

text \<open>
  Two kinds of effects the specification orders against each other: those of the
  pointed-position update (the write of \<open>lastCoords\<close> and the \<open>conversation.item.create\<close>
  message), and those of the response request (the \<open>response.create\<close> message and the
  start of the response timer).
\<close>

fun position_effect :: "event \<Rightarrow> bool" where
  "position_effect (Sent (ConversationItemCreate c)) = True"
| "position_effect (LastCoordsWritten c) = True"
| "position_effect _ = False"


text \<open>
  A session is torn down between two states when \<open>stopSession\<close> ran in between: the effects
  added to the trace hold its line "Session closed" and the release of every transport
  object that was held (the data channel closed, the tracks of the local stream stopped, the
  peer connection closed, the audio element removed), and none of the four is held afterwards.
\<close>

definition torn_down :: "state \<Rightarrow> state \<Rightarrow> bool" where
  "torn_down s s' =
     (let new = drop (length (trace s)) (trace s')
      in take (length (trace s)) (trace s') = trace s \<and>
         Console ''Session closed'' \<in> set new \<and>
         (dataChannel s \<noteq> None \<longrightarrow> DataChannelClosed \<in> set new) \<and>
         (localStream s \<noteq> None \<longrightarrow> TracksStopped \<in> set new) \<and>
         (peerConnection s \<noteq> None \<longrightarrow> PeerConnectionClosed \<in> set new) \<and>
         (audioElement s \<noteq> None \<longrightarrow> AudioElementRemoved \<in> set new) \<and>
         dataChannel s' = None \<and> localStream s' = None \<and>
         peerConnection s' = None \<and> audioElement s' = None)"

text \<open>\<open>msg.error.code\<close> of an inbound message; there is none without \<open>msg.error\<close>.\<close>

definition message_code :: "realtime_message \<Rightarrow> string option" where
  "message_code msg = (case msg_error msg of None \<Rightarrow> None | Some e \<Rightarrow> error_code e)"

text \<open>
  The specification's \<open>compressToBudget\<close>: lower the quality from 0.9 in steps of 0.1 until
  the encoded size is at or below the budget, and return absent when no step fits. The ten
  steps are listed; \<open>compressToBudget\<close> tries the qualities of a list in turn.
\<close>

definition quality_steps :: "number list" where
  "quality_steps = [0.9, 0.8, 0.7, 0.6, 0.5, 0.4, 0.3, 0.2, 0.1, 0]"

fun compressToBudget :: "env \<Rightarrow> blob \<Rightarrow> number \<Rightarrow> number list \<Rightarrow> exn + string option" where
  "compressToBudget en webpBlob maxKilobytes [] = Inr None"
| "compressToBudget en webpBlob maxKilobytes (q # qs) =
     (case compressWebpBlob en webpBlob q of
        Inl err \<Rightarrow> Inl err
      | Inr compressedBlob \<Rightarrow>
          if blobSizeInKB compressedBlob \<le> maxKilobytes then
            (case imageToBase64 en compressedBlob of
               Inl err \<Rightarrow> Inl err
             | Inr b64 \<Rightarrow> Inr (Some b64))
          else compressToBudget en webpBlob maxKilobytes qs)"

text \<open>
  The pointing state that \<open>getCurrentPointedPosition\<close> and \<open>getCurrentHotspot\<close> read off the
  page's elements.
\<close>

definition current_coords :: "ui_elements \<Rightarrow> coords" where
  "current_coords el = (xCoord_valueAsNumber el, yCoord_valueAsNumber el)"

definition current_hotspot :: "ui_elements \<Rightarrow> string option" where
  "current_hotspot el =
     (if hotspotSelect_value el = ''null'' then None else Some (hotspotSelect_value el))"

text \<open>
  The position message for a pointing state cannot be built when the grayscale template is
  missing, when the data channel is missing, or when both coordinates are present and the
  drawing of the marker fails.
\<close>

definition cannot_build :: "env \<Rightarrow> state \<Rightarrow> coords \<Rightarrow> bool" where
  "cannot_build en s cur =
     (\<not> truthy (grayScaleBase64Template s) \<or> dataChannel s = None \<or>
      (\<not> coords_absent cur \<and>
       isl (drawMarker en (the (grayScaleBase64Template s)) (the (fst cur)) (the (snd cur))
              default_radius)))"

text \<open>The content of the position message for a pointing state, once it can be built.\<close>

definition position_content :: "env \<Rightarrow> state \<Rightarrow> coords \<Rightarrow> string option \<Rightarrow> content_part list" where
  "position_content en s cur hotspot =
     (if coords_absent cur then not_pointing_content
      else pointing_content
             (projr (drawMarker en (the (grayScaleBase64Template s)) (the (fst cur))
                       (the (snd cur)) default_radius))
             hotspot)"

section \<open>Concrete inputs\<close>

text \<open>
  A session in its active state: the four transport objects acquired, the page's elements
  bound with the pointer at (10, 20) on the hotspot "Door", the grayscale template cached,
  and \<open>lastCoords\<close> still at its initial value. The environment never shrinks an image
  (every blob has 900000 bytes) and marks a position by appending to the image text.
\<close>

definition example_ui :: ui_elements where
  "example_ui = \<lparr>startBtn_disabled = True, stopBtn_disabled = False,
     sessionState_text = ''Session on'', audioState_text = ''Audio off'',
     modelResponse_text = [], xCoord_valueAsNumber = Some (binary64 10 0),
     yCoord_valueAsNumber = Some (binary64 20 0),
     hotspotSelect_value = ''Door''\<rparr>"

definition example_state :: state where
  "example_state = initial_state\<lparr>peerConnection := Some 1, audioElement := Some 2,
     localStream := Some 3, dataChannel := Some 4, elements := Some example_ui,
     grayScaleBase64Template := Some ''gray''\<rparr>"

definition example_blob :: "string \<Rightarrow> blob" where
  "example_blob b = \<lparr>blob_size = 900000, blob_data = b\<rparr>"

definition example_env :: env where
  "example_env = \<lparr>now = 1000,
     getFileData = Inr \<lparr>data_json = ''{}'', data_metadata_lang = Some (Some ''it-IT'')\<rparr>,
     getFileTemplate = Inr ''template'', getFileColorMap = Inr ''colorMap'',
     base64ToBlob = (\<lambda>b. Inr (example_blob b)),
     reduceResolution = Inr, toWebp = Inr,
     compressWebpBlob = (\<lambda>b q. Inr b),
     imageToBase64 = (\<lambda>b. Inr (blob_data b)),
     base64ToGrayScale = Inr,
     getImgDimensions = (\<lambda>b. Inr (600, 400)),
     drawMarker = (\<lambda>img x y r. Inr (img @ ''+marker''))\<rparr>"

text \<open>An inbound message of a given type with no other field set.\<close>

definition example_message :: "string \<Rightarrow> realtime_message" where
  "example_message ty = \<lparr>msg_type = ty, msg_error = None, msg_delta = None, msg_text = None,
     msg_transcript = None, msg_name = None, msg_response = None\<rparr>"

text \<open>
  An environment whose compressor brings an image down to 100000 bytes from quality 0.25
  downwards and leaves it as it is above.
\<close>

definition shrinking_env :: env where
  "shrinking_env = example_env\<lparr>compressWebpBlob :=
     (\<lambda>b q. Inr (if q \<le> 0.25 then b\<lparr>blob_size := 100000\<rparr> else b))\<rparr>"

text \<open>Two \<open>error\<close> events: the benign race, and another error code.\<close>

definition benign_error_message :: realtime_message where
  "benign_error_message = (example_message ''error'')\<lparr>msg_error :=
     Some (ErrorObject (Some ''Conversation already has an active response'')
             (Some ''conversation_already_has_active_response''))\<rparr>"

definition other_error_message :: realtime_message where
  "other_error_message = (example_message ''error'')\<lparr>msg_error :=
     Some (ErrorObject (Some ''Session expired'') (Some ''session_expired''))\<rparr>"

text \<open>The function-call event of the sleep word.\<close>

definition sleep_word_message :: realtime_message where
  "sleep_word_message = (example_message ''response.function_call_arguments.done'')\<lparr>msg_name :=
     Some ''sleep_word''\<rparr>"

text \<open>
  The doubles nearest to 5.1 and to 0.1, as \<open>valueAsNumber\<close> gives them for such input, and
  the double \<open>2 ^ -60\<close>.
\<close>

definition double_5_1 :: float64 where
  "double_5_1 = binary64 5742089524897382 (- 50)"

definition double_0_1 :: float64 where
  "double_0_1 = binary64 7205759403792794 (- 56)"

definition double_tiny :: float64 where
  "double_tiny = binary64 1 (- 60)"




declare compress_loop.simps [simp del]

lemma sent_append: "sent (xs @ ys) = sent xs @ sent ys"
  by (induction xs rule: sent.induct) simp_all

lemma emit_fields [simp]:
  "trace (emit ev s) = trace s @ [ev]"
  "dataChannel (emit ev s) = dataChannel s"
  "localStream (emit ev s) = localStream s"
  "peerConnection (emit ev s) = peerConnection s"
  "audioElement (emit ev s) = audioElement s"
  "elements (emit ev s) = elements s"
  "lastCoords (emit ev s) = lastCoords s"
  "audioResponsesOn (emit ev s) = audioResponsesOn s"
  "grayScaleBase64Template (emit ev s) = grayScaleBase64Template s"
  by (simp_all add: emit_def)

lemma send_fields [simp]:
  "trace (send m s) = trace s @ [Sent m]"
  "dataChannel (send m s) = dataChannel s"
  "localStream (send m s) = localStream s"
  "peerConnection (send m s) = peerConnection s"
  "audioElement (send m s) = audioElement s"
  "elements (send m s) = elements s"
  "lastCoords (send m s) = lastCoords s"
  "audioResponsesOn (send m s) = audioResponsesOn s"
  "grayScaleBase64Template (send m s) = grayScaleBase64Template s"
  by (simp_all add: send_def)

lemma handleSessionState_fields [simp]:
  "trace (handleSessionState b s) = trace s @ ui_events s"
  "dataChannel (handleSessionState b s) = dataChannel s"
  "localStream (handleSessionState b s) = localStream s"
  "peerConnection (handleSessionState b s) = peerConnection s"
  "audioElement (handleSessionState b s) = audioElement s"
  "lastCoords (handleSessionState b s) = lastCoords s"
  "audioResponsesOn (handleSessionState b s) = audioResponsesOn s"
  "grayScaleBase64Template (handleSessionState b s) = grayScaleBase64Template s"
  "(elements (handleSessionState b s) = None) = (elements s = None)"
  by (cases "elements s"; simp add: handleSessionState_def ui_events_def)+

lemma handleAudioState_fields [simp]:
  "trace (handleAudioState b s) = trace s @ ui_events s"
  "dataChannel (handleAudioState b s) = dataChannel s"
  "localStream (handleAudioState b s) = localStream s"
  "peerConnection (handleAudioState b s) = peerConnection s"
  "audioElement (handleAudioState b s) = audioElement s"
  "lastCoords (handleAudioState b s) = lastCoords s"
  "grayScaleBase64Template (handleAudioState b s) = grayScaleBase64Template s"
  "(elements (handleAudioState b s) = None) = (elements s = None)"
  "audioResponsesOn (handleAudioState b s) = (if elements s = None then audioResponsesOn s else b)"
  by (cases "elements s"; simp add: handleAudioState_def ui_events_def)+

lemma stopSession_fields [simp]:
  "dataChannel (stopSession s) = None"
  "localStream (stopSession s) = None"
  "peerConnection (stopSession s) = None"
  "audioElement (stopSession s) = None"
  "lastCoords (stopSession s) = lastCoords s"
  "grayScaleBase64Template (stopSession s) = grayScaleBase64Template s"
  by (simp_all add: stopSession_def Let_def)

lemma stopSession_trace [simp]: "trace (stopSession s) = trace s @ release_events s"
  by (simp add: stopSession_def Let_def release_events_def ui_events_def)

lemma sent_release_events [simp]: "sent (release_events s) = []"
  by (simp add: release_events_def ui_events_def)

lemma closed_in_release_events [simp]: "Console ''Session closed'' \<in> set (release_events s)"
  by (simp add: release_events_def)

section \<open>Rounding of the coordinate difference\<close>

text \<open>
  The detector compares the double nearest to the difference of two coordinates with the
  threshold. The lemmas of this section reduce that test to the coordinates' values: the
  rounded difference reaches 5 exactly when the difference itself reaches \<open>5 - 1 / 2 ^ 51\<close>, the
  midpoint between 5 and the double below it.
\<close>

lemma round_even_0: "round_even M 0 = M"
  by (simp add: round_even_def)

lemma round_even_threshold:
  assumes "even T"
  shows "T \<le> round_even M k \<longleftrightarrow> (2 * T - 1) * 2 ^ k \<le> 2 * M"
proof -
  define q where "q = M div 2 ^ k"
  define r where "r = M mod 2 ^ k"
  define P :: int where "P = 2 ^ k"
  have P: "0 < P" by (simp add: P_def)
  have M: "M = q * P + r" unfolding q_def r_def P_def by (rule div_mult_mod_eq [symmetric])
  have r: "0 \<le> r" "r < P" by (simp_all add: r_def P_def)
  have re: "round_even M k = (if 2 * r < P then q else if P < 2 * r then q + 1
      else if even q then q else q + 1)"
    by (simp add: round_even_def q_def r_def P_def Let_def)
  have goal: "((2 * T - 1) * P \<le> 2 * (q * P + r)) = (2 * (T * P) \<le> 2 * (q * P) + 2 * r + P)"
    by (simp add: algebra_simps)
  have up: "T \<le> a \<Longrightarrow> T * P \<le> a * P" for a
    using P by simp
  have down: "a \<le> T \<Longrightarrow> a * P \<le> T * P" for a
    using P by simp
  have "T \<le> round_even M k \<longleftrightarrow> 2 * (T * P) \<le> 2 * (q * P) + 2 * r + P"
  proof (cases "2 * r < P")
    case low: True
    then have eq: "round_even M k = q" by (simp add: re)
    show ?thesis
    proof (cases "T \<le> q")
      case True
      then have "T * P \<le> q * P" by (rule up)
      then show ?thesis unfolding eq using True r P by linarith
    next
      case False
      then have "q + 1 \<le> T" by simp
      then have "(q + 1) * P \<le> T * P" by (rule down)
      then have "q * P + P \<le> T * P" by (simp add: algebra_simps)
      then show ?thesis unfolding eq using False low by linarith
    qed
  next
    case nlow: False
    show ?thesis
    proof (cases "P < 2 * r \<or> odd q")
      case True
      then have eq: "round_even M k = q + 1" using nlow by (auto simp add: re)
      show ?thesis
      proof (cases "T \<le> q + 1")
        case True
        then have "T * P \<le> (q + 1) * P" by (rule up)
        then have "T * P \<le> q * P + P" by (simp add: algebra_simps)
        then show ?thesis unfolding eq using True nlow by linarith
      next
        case False
        then have "q + 2 \<le> T" by simp
        then have "(q + 2) * P \<le> T * P" by (rule down)
        then have "q * P + 2 * P \<le> T * P" by (simp add: algebra_simps)
        then show ?thesis unfolding eq using False r by linarith
      qed
    next
      case False
      then have tie: "2 * r = P" and ev: "even q" using nlow by auto
      then have eq: "round_even M k = q" by (simp add: re)
      show ?thesis
      proof (cases "T \<le> q")
        case True
        then have "T * P \<le> q * P" by (rule up)
        then show ?thesis unfolding eq using True r P by linarith
      next
        case False
        then have "q + 2 \<le> T" using ev assms by presburger
        then have "(q + 2) * P \<le> T * P" by (rule down)
        then have "q * P + 2 * P \<le> T * P" by (simp add: algebra_simps)
        then show ?thesis unfolding eq using False tie P by linarith
      qed
    qed
  qed
  then have "T \<le> round_even M k \<longleftrightarrow> (2 * T - 1) * P \<le> 2 * (q * P + r)"
    by (simp only: goal)
  then show ?thesis
    using M by (simp add: P_def)
qed

lemma round_even_upper: "2 * (round_even M k * 2 ^ k) \<le> 2 * M + 2 ^ k"
proof -
  define q where "q = M div 2 ^ k"
  define r where "r = M mod 2 ^ k"
  define P :: int where "P = 2 ^ k"
  have M: "M = q * P + r" unfolding q_def r_def P_def by (rule div_mult_mod_eq [symmetric])
  have r: "0 \<le> r" "r < P" by (simp_all add: r_def P_def)
  have re: "round_even M k = q \<or> (round_even M k = q + 1 \<and> P \<le> 2 * r)"
    by (auto simp add: round_even_def q_def r_def P_def Let_def)
  have "2 * (round_even M k * P) \<le> 2 * (q * P + r) + P"
    using re r by (auto simp add: algebra_simps)
  then show ?thesis using M by (simp add: P_def)
qed

lemma p2_powr: "p2 e = 2 powr real_of_int e"
  by (simp add: p2_def powr_real_of_int inverse_eq_divide)

lemma p2_add: "p2 (a + b) = p2 a * p2 b"
  by (simp add: p2_powr powr_add)

lemma p2_nat: "p2 (int n) = 2 ^ n"
  by (simp add: p2_def)

lemma p2_pos: "0 < p2 e"
  by (simp add: p2_powr)

lemma p2_mono: "a \<le> b \<Longrightarrow> p2 a \<le> p2 b"
  by (simp add: p2_powr powr_mono)

lemma p2_neg: "p2 (- int n) = 1 / 2 ^ n"
  by (simp add: p2_def)

lemma no_value_just_below_5:
  assumes "0 \<le> M" "M < 2 ^ 53" "5 - 1 / 2 ^ 51 \<le> real_of_int M * p2 E"
  shows "5 \<le> real_of_int M * p2 E"
proof (cases "E \<le> - 51")
  case True
  have "real_of_int M * p2 E \<le> real_of_int M * p2 (- 51)"
    using assms(1) p2_mono [OF True] by (simp add: mult_left_mono)
  also have "\<dots> \<le> 2 ^ 53 * p2 (- 51)"
    using assms(2) p2_pos [of "- 51"] by (simp add: mult_right_mono)
  also have "\<dots> = 4"
    using p2_neg [of 51] by simp
  finally show ?thesis using assms(3) by simp
next
  case False
  define n where "n = nat (E + 50)"
  have E: "E = int n + (- 50)" using False by (simp add: n_def)
  define N where "N = M * 2 ^ n"
  have scale: "real_of_int M * p2 E = real_of_int N / 2 ^ 50"
    unfolding E p2_add p2_nat N_def using p2_neg [of 50] by simp
  have "5 * 2 ^ 50 - 1 / 2 \<le> real_of_int N"
    using assms(3) unfolding scale by (simp add: field_simps)
  then have "real_of_int (5 * 2 ^ 50 - 1) < real_of_int N"
    by simp
  then have "5 * 2 ^ 50 - 1 < N"
    by (simp only: of_int_less_iff)
  then have "5 * 2 ^ 50 \<le> N" by simp
  then have "real_of_int (5 * 2 ^ 50) \<le> real_of_int N"
    by (simp only: of_int_le_iff)
  then show ?thesis unfolding scale by (simp add: field_simps)
qed

lemma rnd_threshold_nonneg:
  assumes "0 \<le> M"
  shows "5 \<le> rnd M E \<longleftrightarrow> 5 - 1 / 2 ^ 51 \<le> real_of_int M * p2 E"
proof (cases "M < 2 ^ 53")
  case True
  then have "bitlen \<bar>M\<bar> \<le> 53"
    using assms by (simp add: bitlen_le_iff_power)
  then have "rnd M E = real_of_int M * p2 E"
    by (simp add: rnd_def round_even_0)
  then show ?thesis
    using no_value_just_below_5 [OF assms True, of E] by auto
next
  case False
  define k where "k = nat (bitlen \<bar>M\<bar> - 53)"
  define m' where "m' = round_even M k"
  define s where "s = E + int k"
  have Mpos: "0 < M" using False by simp
  have "54 \<le> bitlen M"
    using False by (simp add: bitlen_ge_iff_power)
  then have bl: "bitlen M = 53 + int k"
    using assms by (simp add: k_def)
  have kpos: "0 < k" using \<open>54 \<le> bitlen M\<close> assms by (simp add: k_def)
  have lowM: "2 ^ (52 + k) \<le> M" and upM: "M < 2 ^ (53 + k)"
    using bitlen_bounds [OF Mpos] unfolding bl by (simp_all add: nat_add_distrib)
  have rnd: "rnd M E = real_of_int m' * p2 s"
    by (simp add: rnd_def k_def m'_def s_def)
  have val: "real_of_int M * p2 E = real_of_int M / 2 ^ k * p2 s"
    unfolding s_def p2_add p2_nat by simp
  have m'_low: "2 ^ 52 \<le> m'"
  proof -
    have "(2 * 2 ^ 52 - 1) * 2 ^ k \<le> 2 * (2 ^ (52 + k) :: int)"
      by (simp add: power_add algebra_simps)
    then have "(2 * 2 ^ 52 - 1) * 2 ^ k \<le> 2 * M"
      using lowM by linarith
    then show ?thesis
      unfolding m'_def using round_even_threshold [of "2 ^ 52" M k] by simp
  qed
  have m'_up: "m' \<le> 2 ^ 53"
  proof -
    have "2 * (m' * 2 ^ k) \<le> 2 * M + 2 ^ k"
      unfolding m'_def by (rule round_even_upper)
    also have "\<dots> < 2 * 2 ^ (53 + k) + 2 ^ k"
      using upM by simp
    also have "\<dots> = (2 * 2 ^ 53 + 1) * 2 ^ k"
      by (simp add: power_add algebra_simps)
    finally have "(2 * m') * 2 ^ k < (2 * 2 ^ 53 + 1) * (2 ^ k :: int)"
      by (simp add: algebra_simps)
    then have "2 * m' < 2 * 2 ^ 53 + 1"
      by (simp only: mult_less_cancel_right_pos zero_less_power zero_less_numeral)
    then show ?thesis by simp
  qed
  consider (big) "- 49 \<le> s" | (small) "s \<le> - 51" | (five) "s = - 50"
    by linarith
  then show ?thesis
  proof cases
    case big
    have p: "8 \<le> p2 (52 + s)"
      using p2_mono [of 3 "52 + s"] big p2_nat [of 3] by simp
    have "p2 (52 + s) = 2 ^ 52 * p2 s"
      using p2_add [of 52 s] p2_nat [of 52] by simp
    also have "\<dots> \<le> real_of_int m' * p2 s"
      using m'_low p2_pos [of s] by (simp add: mult_right_mono)
    finally have left: "5 \<le> rnd M E" using p rnd by simp
    have "52 + s = int (52 + k) + E" by (simp add: s_def)
    then have "p2 (52 + s) = 2 ^ (52 + k) * p2 E"
      by (simp only: p2_add p2_nat)
    also have "\<dots> \<le> real_of_int M * p2 E"
      using lowM p2_pos [of E] by (simp add: mult_right_mono)
    finally have "5 - 1 / 2 ^ 51 \<le> real_of_int M * p2 E" using p by simp
    then show ?thesis using left by simp
  next
    case small
    have p: "p2 (53 + s) \<le> 4"
      using p2_mono [of "53 + s" 2] small p2_nat [of 2] by simp
    have "real_of_int m' * p2 s \<le> 2 ^ 53 * p2 s"
      using m'_up p2_pos [of s] by (simp add: mult_right_mono)
    also have "\<dots> = p2 (53 + s)"
      using p2_add [of 53 s] p2_nat [of 53] by simp
    finally have left: "\<not> 5 \<le> rnd M E" using p rnd by simp
    have "real_of_int M * p2 E \<le> 2 ^ (53 + k) * p2 E"
      using upM p2_pos [of E] by (simp add: mult_right_mono)
    also have "\<dots> = p2 (53 + s)"
    proof -
      have "53 + s = int (53 + k) + E" by (simp add: s_def)
      then show ?thesis by (simp only: p2_add p2_nat)
    qed
    finally have "\<not> 5 - 1 / 2 ^ 51 \<le> real_of_int M * p2 E" using p by simp
    then show ?thesis using left by simp
  next
    case five
    have ps: "p2 s = 1 / 2 ^ 50"
      unfolding five using p2_neg [of 50] by simp
    have "5 \<le> rnd M E \<longleftrightarrow> real_of_int (5 * 2 ^ 50) \<le> real_of_int m'"
      unfolding rnd ps by (simp add: field_simps)
    also have "\<dots> \<longleftrightarrow> 5 * 2 ^ 50 \<le> m'"
      by (simp only: of_int_le_iff)
    also have "\<dots> \<longleftrightarrow> (2 * (5 * 2 ^ 50) - 1) * 2 ^ k \<le> 2 * M"
      unfolding m'_def by (rule round_even_threshold) simp
    also have "\<dots> \<longleftrightarrow> real_of_int ((2 * (5 * 2 ^ 50) - 1) * 2 ^ k) \<le> real_of_int (2 * M)"
      by (simp only: of_int_le_iff)
    also have "\<dots> \<longleftrightarrow> 5 - 1 / 2 ^ 51 \<le> real_of_int M * p2 E"
      unfolding val ps by (simp add: field_simps)
    finally show ?thesis .
  qed
qed

lemma round_even_nonneg: "0 \<le> M \<Longrightarrow> 0 \<le> round_even M k"
proof -
  assume "0 \<le> M"
  moreover have "(0 :: int) < 2 ^ k" by simp
  ultimately have "- (2 ^ k) \<le> 2 * M" by linarith
  then show ?thesis using round_even_threshold [of 0 M k] by simp
qed

lemma round_even_minus: "round_even (- M) k = - round_even M k"
proof -
  define q where "q = M div 2 ^ k"
  define r where "r = M mod 2 ^ k"
  define P :: int where "P = 2 ^ k"
  have P: "P \<noteq> 0" by (simp add: P_def)
  have r: "0 \<le> r" "r < P" by (simp_all add: r_def P_def)
  have d: "(- M) div P = (if r = 0 then - q else - q - 1)"
    unfolding q_def r_def P_def by (simp add: zdiv_zminus1_eq_if)
  have m: "(- M) mod P = (if r = 0 then 0 else P - r)"
    unfolding r_def P_def by (simp add: zmod_zminus1_eq_if)
  have a: "round_even M k = (if 2 * r < P then q else if P < 2 * r then q + 1
      else if even q then q else q + 1)"
    by (simp add: round_even_def q_def r_def P_def Let_def)
  have b: "round_even (- M) k =
      (let q' = (- M) div P; r' = (- M) mod P
       in if 2 * r' < P then q' else if P < 2 * r' then q' + 1
          else if even q' then q' else q' + 1)"
    by (simp add: round_even_def P_def Let_def)
  show ?thesis
    unfolding a b d m Let_def using r by (auto simp add: P_def)
qed

lemma rnd_minus: "rnd (- M) E = - rnd M E"
  by (simp add: rnd_def round_even_minus)

lemma rnd_nonneg: "0 \<le> M \<Longrightarrow> 0 \<le> rnd M E"
  using round_even_nonneg [of M] p2_pos [of "E + int (nat (bitlen \<bar>M\<bar> - 53))"]
  by (simp add: rnd_def)

lemma rnd_abs_threshold:
  "5 \<le> \<bar>rnd M E\<bar> \<longleftrightarrow> 5 - 1 / 2 ^ 51 \<le> \<bar>real_of_int M * p2 E\<bar>"
proof (cases "0 \<le> M")
  case True
  then have "0 \<le> real_of_int M * p2 E" using p2_pos [of E] by simp
  then show ?thesis
    using rnd_threshold_nonneg [OF True, of E] rnd_nonneg [OF True, of E] by simp
next
  case False
  then have neg: "0 \<le> - M" by simp
  have "0 \<le> real_of_int (- M) * p2 E" using neg p2_pos [of E] by (simp del: of_int_minus)
  then have v: "\<bar>real_of_int M * p2 E\<bar> = real_of_int (- M) * p2 E" by simp
  have r: "\<bar>rnd M E\<bar> = rnd (- M) E"
    using rnd_nonneg [OF neg, of E] by (simp add: rnd_minus)
  show ?thesis
    unfolding v r by (rule rnd_threshold_nonneg [OF neg])
qed

lemma exact_difference:
  assumes "E = min e1 e2"
  shows "real_of_int (m1 * 2 ^ nat (e1 - E) - m2 * 2 ^ nat (e2 - E)) * p2 E =
     real_of_int m1 * p2 e1 - real_of_int m2 * p2 e2"
proof -
  have e1: "e1 = int (nat (e1 - E)) + E" and e2: "e2 = int (nat (e2 - E)) + E"
    using assms by simp_all
  have "p2 e1 = 2 ^ nat (e1 - E) * p2 E"
    by (subst e1) (simp only: p2_add p2_nat)
  moreover have "p2 e2 = 2 ^ nat (e2 - E) * p2 E"
    by (subst e2) (simp only: p2_add p2_nat)
  ultimately show ?thesis by (simp add: algebra_simps)
qed

lemma valof_binary64:
  "is_binary64 (m, e) \<Longrightarrow> valof (binary64 m e) = real_of_int m * p2 e"
  by (simp add: valof_def binary64_def Abs_float64_inverse)

lemma valof_integer:
  "\<bar>i\<bar> < 2 ^ 53 \<Longrightarrow> valof (binary64 i 0) = real_of_int i"
  by (simp add: valof_binary64 is_binary64_def p2_def)

lemma valof_default_threshold: "valof default_threshold = 5"
  by (simp add: default_threshold_def valof_integer)

lemma float_sub_threshold:
  "js_ge (math_abs (float_sub a b)) default_threshold \<longleftrightarrow>
     5 - 1 / 2 ^ 51 \<le> \<bar>valof a - valof b\<bar>"
proof -
  obtain m1 e1 where a: "Rep_float64 a = (m1, e1)" by (cases "Rep_float64 a")
  obtain m2 e2 where b: "Rep_float64 b = (m2, e2)" by (cases "Rep_float64 b")
  define E where "E = min e1 e2"
  define M where "M = m1 * 2 ^ nat (e1 - E) - m2 * 2 ^ nat (e2 - E)"
  have diff: "real_of_int M * p2 E = valof a - valof b"
    unfolding M_def using exact_difference [OF E_def] by (simp add: valof_def a b)
  have sub: "float_sub a b = (if 2 ^ 1024 \<le> rnd M E then PosInfinity
      else if rnd M E \<le> - (2 ^ 1024) then NegInfinity else Num (rnd M E))"
    by (simp add: float_sub_def a b Let_def E_def M_def)
  have "js_ge (math_abs (float_sub a b)) default_threshold \<longleftrightarrow> 5 \<le> \<bar>rnd M E\<bar>"
    unfolding sub by (simp add: valof_default_threshold)
  then show ?thesis
    using rnd_abs_threshold [of M E] by (simp add: diff)
qed

lemma hasPositionChanged_present:
  "hasPositionChanged (Some ax, Some ay) (Some bx, Some by) \<longleftrightarrow>
     5 - 1 / 2 ^ 51 \<le> \<bar>valof ax - valof bx\<bar> \<or> 5 - 1 / 2 ^ 51 \<le> \<bar>valof ay - valof by\<bar>"
  by (simp add: hasPositionChanged_def checkPointedPositionVariation_def float_sub_threshold)

lemma integer_difference_threshold:
  assumes "d \<in> \<int>"
  shows "5 - 1 / 2 ^ 51 \<le> \<bar>d\<bar> \<longleftrightarrow> 5 \<le> \<bar>d :: real\<bar>"
proof
  assume low: "5 - 1 / 2 ^ 51 \<le> \<bar>d\<bar>"
  from assms obtain n :: int where d: "d = real_of_int n" by (auto elim: Ints_cases)
  have "\<bar>d\<bar> = real_of_int \<bar>n\<bar>" by (simp add: d)
  then have "real_of_int 4 < real_of_int \<bar>n\<bar>" using low by simp
  then have "4 < \<bar>n\<bar>" by (simp only: of_int_less_iff)
  then have "5 \<le> \<bar>n\<bar>" by simp
  then have "real_of_int 5 \<le> real_of_int \<bar>n\<bar>" by (simp only: of_int_le_iff)
  then show "5 \<le> \<bar>d\<bar>" by (simp add: d)
next
  assume "5 \<le> \<bar>d\<bar>"
  then show "5 - 1 / 2 ^ 51 \<le> \<bar>d\<bar>" by simp
qed

lemma placeholder_difference_threshold:
  "5 - 1 / 2 ^ 51 \<le> \<bar>valof x - 100000\<bar> \<longleftrightarrow> 5 \<le> \<bar>valof x - 100000\<bar>"
proof
  assume low: "5 - 1 / 2 ^ 51 \<le> \<bar>valof x - 100000\<bar>"
  show "5 \<le> \<bar>valof x - 100000\<bar>"
  proof (rule ccontr)
    assume "\<not> 5 \<le> \<bar>valof x - 100000\<bar>"
    then have up: "\<bar>valof x - 100000\<bar> < 5" by simp
    obtain m e where x: "Rep_float64 x = (m, e)" by (cases "Rep_float64 x")
    have "is_binary64 (m, e)" using Rep_float64 [of x] by (simp add: x)
    then have m: "\<bar>m\<bar> < 2 ^ 53" by (simp add: is_binary64_def)
    have v: "valof x = real_of_int m * p2 e" by (simp add: valof_def x)
    have big: "99995 < real_of_int m * p2 e" using up v by simp
    have mpos: "0 < m"
    proof (rule ccontr)
      assume "\<not> 0 < m"
      then have "real_of_int m \<le> 0" by simp
      then have "real_of_int m * p2 e \<le> 0" using p2_pos [of e] by (simp add: mult_le_0_iff)
      then show False using big by simp
    qed
    have e: "- 36 \<le> e"
    proof (rule ccontr)
      assume "\<not> - 36 \<le> e"
      then have "e \<le> - 37" by simp
      then have "real_of_int m * p2 e \<le> real_of_int m * p2 (- 37)"
        using mpos p2_mono [of e "- 37"] by (simp add: mult_left_mono)
      also have "\<dots> \<le> 2 ^ 53 * p2 (- 37)"
        using m p2_pos [of "- 37"] by (simp add: mult_right_mono)
      also have "\<dots> = 65536"
        using p2_neg [of 37] by simp
      finally show False using big by simp
    qed
    define n where "n = nat (e + 36)"
    have en: "e = int n + (- 36)" using e by (simp add: n_def)
    define N where "N = m * 2 ^ n - 100000 * 2 ^ 36"
    have scale: "valof x - 100000 = real_of_int N / 2 ^ 36"
      unfolding v en p2_add p2_nat N_def using p2_neg [of 36] by (simp add: field_simps)
    have "\<bar>real_of_int N / 2 ^ 36\<bar> = real_of_int \<bar>N\<bar> / 2 ^ 36" by simp
    then have abs: "\<bar>valof x - 100000\<bar> = real_of_int \<bar>N\<bar> / 2 ^ 36" by (simp only: scale)
    have "real_of_int \<bar>N\<bar> < real_of_int (5 * 2 ^ 36)"
      using up unfolding abs by (simp add: field_simps)
    then have "\<bar>N\<bar> < 5 * 2 ^ 36" by (simp only: of_int_less_iff)
    then have "\<bar>N\<bar> \<le> 5 * 2 ^ 36 - 1" by simp
    then have "real_of_int \<bar>N\<bar> \<le> real_of_int (5 * 2 ^ 36 - 1)" by (simp only: of_int_le_iff)
    then have "real_of_int \<bar>N\<bar> / 2 ^ 36 \<le> 5 - 1 / 2 ^ 36" by (simp add: field_simps)
    then show False using low unfolding abs by simp
  qed
next
  assume "5 \<le> \<bar>valof x - 100000\<bar>"
  then show "5 - 1 / 2 ^ 51 \<le> \<bar>valof x - 100000\<bar>" by simp
qed

lemma valof_examples [simp]:
  "valof (binary64 0 0) = 0" "valof (binary64 3 0) = 3" "valof (binary64 5 0) = 5"
  "valof (binary64 10 0) = 10" "valof (binary64 12 0) = 12" "valof (binary64 17 0) = 17"
  "valof (binary64 20 0) = 20" "valof (binary64 50 0) = 50"
  "valof (binary64 99999 0) = 99999" "valof (binary64 100000 0) = 100000"
  by (simp_all add: valof_integer)

lemma valof_doubles:
  "valof double_tiny = 1 / 2 ^ 60"
  "valof double_5_1 = 5742089524897382 / 2 ^ 50"
  "valof double_0_1 = 7205759403792794 / 2 ^ 56"
  by (simp_all add: double_tiny_def double_5_1_def double_0_1_def valof_binary64 is_binary64_def
      p2_def)

lemma absent_cases:
  "coords_absent cur \<Longrightarrow> coords_absent lst \<Longrightarrow> \<not> hasPositionChanged cur lst"
  "coords_absent cur \<noteq> coords_absent lst \<Longrightarrow> hasPositionChanged cur lst"
  by (auto simp add: hasPositionChanged_def checkPointedPositionVariation_def coords_absent_def)

lemma Rep_binary64: "is_binary64 (m, e) \<Longrightarrow> Rep_float64 (binary64 m e) = (m, e)"
  by (simp add: binary64_def Abs_float64_inverse)

lemma float_sub_5_tiny: "float_sub (binary64 5 0) double_tiny = Num 5"
proof -
  have "bitlen 5764607523034234879 = 63"
    by (simp add: bitlen_le_iff_power bitlen_ge_iff_power order_antisym)
  then show ?thesis
    by (simp add: float_sub_def double_tiny_def Rep_binary64 is_binary64_def Let_def rnd_def
        round_even_def p2_def)
qed

lemma float_sub_5_1_0_1: "float_sub double_5_1 double_0_1 = Num 5"
proof -
  have "bitlen 360287970189639654 = 59"
    by (simp add: bitlen_le_iff_power bitlen_ge_iff_power order_antisym)
  then show ?thesis
    by (simp add: float_sub_def double_5_1_def double_0_1_def Rep_binary64 is_binary64_def
        Let_def rnd_def round_even_def p2_def)
qed

section \<open>Properties of the detector\<close>

text \<open>
  Claim C1, as stated, at concrete inputs. The detector compares the rounded difference, not
  the difference. For the current position (5, 0) against the last position (\<open>1 / 2 ^ 60\<close>, 0),
  and for 5.1 against 0.1 as the doubles nearest to them, the subtraction gives the double 5
  and the detector returns true, although the absolute difference is below 5 on both axes.
\<close>

theorem rounded_difference_counterexample:
  "float_sub (binary64 5 0) double_tiny = Num 5 \<and>
   float_sub double_5_1 double_0_1 = Num 5 \<and>
   hasPositionChanged (Some (binary64 5 0), Some (binary64 0 0))
     (Some double_tiny, Some (binary64 0 0)) \<and>
   \<bar>valof (binary64 5 0) - valof double_tiny\<bar> < 5 \<and>
   \<bar>valof (binary64 0 0) - valof (binary64 0 0)\<bar> < 5 \<and>
   hasPositionChanged (Some double_5_1, Some (binary64 0 0))
     (Some double_0_1, Some (binary64 0 0)) \<and>
   \<bar>valof double_5_1 - valof double_0_1\<bar> < 5"
  by (simp add: hasPositionChanged_present valof_doubles float_sub_5_tiny float_sub_5_1_0_1)

text \<open>
  Claim C1, amended. With the default threshold of 5, the detector returns false when both the
  current and the last coordinates are absent and true when exactly one of them is absent.
  When both are present it returns true exactly when the absolute difference on the x axis or
  on the y axis is at least \<open>5 - 1 / 2 ^ 51\<close>, which are the differences whose nearest double is
  at least 5: so it returns true whenever a difference is at least the threshold, and for
  coordinates whose differences are whole numbers it returns true exactly when the difference
  on the x axis or on the y axis is at least the threshold.
\<close>

theorem hasPositionChanged_cases:
  "(coords_absent cur \<and> coords_absent lst \<longrightarrow> \<not> hasPositionChanged cur lst) \<and>
   (coords_absent cur \<noteq> coords_absent lst \<longrightarrow> hasPositionChanged cur lst) \<and>
   (cur = (Some ax, Some ay) \<and> lst = (Some bx, Some by) \<longrightarrow>
      hasPositionChanged cur lst =
        (5 - 1 / 2 ^ 51 \<le> \<bar>valof ax - valof bx\<bar> \<or> 5 - 1 / 2 ^ 51 \<le> \<bar>valof ay - valof by\<bar>) \<and>
      (5 \<le> \<bar>valof ax - valof bx\<bar> \<or> 5 \<le> \<bar>valof ay - valof by\<bar> \<longrightarrow>
         hasPositionChanged cur lst) \<and>
      (valof ax - valof bx \<in> \<int> \<and> valof ay - valof by \<in> \<int> \<longrightarrow>
         hasPositionChanged cur lst =
           (5 \<le> \<bar>valof ax - valof bx\<bar> \<or> 5 \<le> \<bar>valof ay - valof by\<bar>)))"
proof (intro conjI impI)
  assume "coords_absent cur \<and> coords_absent lst"
  then show "\<not> hasPositionChanged cur lst" using absent_cases(1) by blast
next
  assume "coords_absent cur \<noteq> coords_absent lst"
  then show "hasPositionChanged cur lst" by (rule absent_cases(2))
next
  assume p: "cur = (Some ax, Some ay) \<and> lst = (Some bx, Some by)"
  then have c: "cur = (Some ax, Some ay)" "lst = (Some bx, Some by)" by simp_all
  show "hasPositionChanged cur lst =
        (5 - 1 / 2 ^ 51 \<le> \<bar>valof ax - valof bx\<bar> \<or> 5 - 1 / 2 ^ 51 \<le> \<bar>valof ay - valof by\<bar>)"
    unfolding c by (rule hasPositionChanged_present)
  show "hasPositionChanged cur lst"
    if "5 \<le> \<bar>valof ax - valof bx\<bar> \<or> 5 \<le> \<bar>valof ay - valof by\<bar>"
    using p that by (auto simp add: hasPositionChanged_present)
  show "hasPositionChanged cur lst =
           (5 \<le> \<bar>valof ax - valof bx\<bar> \<or> 5 \<le> \<bar>valof ay - valof by\<bar>)"
    if "valof ax - valof bx \<in> \<int> \<and> valof ay - valof by \<in> \<int>"
    unfolding c hasPositionChanged_present using that
    by (simp only: integer_difference_threshold)
qed

theorem hasPositionChanged_cases_witness:
  "coords_absent (None, None) \<and> \<not> coords_absent (Some (binary64 10 0), Some (binary64 20 0)) \<and>
   \<not> hasPositionChanged (None, None) (None, None) \<and>
   hasPositionChanged (Some (binary64 10 0), Some (binary64 20 0)) (None, None) \<and>
   hasPositionChanged (None, None) (Some (binary64 10 0), Some (binary64 20 0)) \<and>
   \<not> hasPositionChanged (Some (binary64 3 0), Some (binary64 3 0))
       (Some (binary64 0 0), Some (binary64 0 0)) \<and>
   hasPositionChanged (Some (binary64 50 0), Some (binary64 50 0))
     (Some (binary64 3 0), Some (binary64 3 0)) \<and>
   hasPositionChanged (Some (binary64 5 0), Some (binary64 0 0))
     (Some (binary64 0 0), Some (binary64 0 0)) \<and>
   hasPositionChanged (Some (binary64 5 0), Some (binary64 0 0))
     (Some double_tiny, Some (binary64 0 0))"
  using hasPositionChanged_cases [of "(None, None)" "(None, None)"]
    hasPositionChanged_cases [of "(Some (binary64 10 0), Some (binary64 20 0))" "(None, None)"]
    hasPositionChanged_cases [of "(None, None)" "(Some (binary64 10 0), Some (binary64 20 0))"]
    hasPositionChanged_cases [of "(Some (binary64 3 0), Some (binary64 3 0))"
      "(Some (binary64 0 0), Some (binary64 0 0))" "binary64 3 0" "binary64 3 0"
      "binary64 0 0" "binary64 0 0"]
    hasPositionChanged_cases [of "(Some (binary64 50 0), Some (binary64 50 0))"
      "(Some (binary64 3 0), Some (binary64 3 0))" "binary64 50 0" "binary64 50 0"
      "binary64 3 0" "binary64 3 0"]
    hasPositionChanged_cases [of "(Some (binary64 5 0), Some (binary64 0 0))"
      "(Some (binary64 0 0), Some (binary64 0 0))" "binary64 5 0" "binary64 0 0"
      "binary64 0 0" "binary64 0 0"]
    hasPositionChanged_cases [of "(Some (binary64 5 0), Some (binary64 0 0))"
      "(Some double_tiny, Some (binary64 0 0))" "binary64 5 0" "binary64 0 0"
      double_tiny "binary64 0 0"]
  by (simp add: coords_absent_def valof_doubles)

section \<open>Partially absent coordinates\<close>

text \<open>
  Claim C10. When exactly one of the two coordinates is absent, the state counts as not
  pointing everywhere: the detector treats the pair as an absent position (as current and as
  last position it decides as the pair with both coordinates absent does), the update flow
  sends the "user is not pointing" message and no image, and \<open>drawPointedPosition\<close> returns
  its input image whenever either coordinate is absent.
\<close>

theorem partial_coordinates_not_pointing:
  assumes "(x = None) \<noteq> (y = None)"
  shows "coords_absent (x, y) \<and>
    hasPositionChanged (x, y) l = hasPositionChanged (None, None) l \<and>
    hasPositionChanged c (x, y) = hasPositionChanged c (None, None) \<and>
    (truthy (grayScaleBase64Template s) \<and> dataChannel s \<noteq> None \<longrightarrow>
       fst (sendImgWithPositionAndHotspot en x y h s) = None \<and>
       trace (snd (sendImgWithPositionAndHotspot en x y h s)) =
         trace s @ [Sent (ConversationItemCreate [InputText ''The user is not pointing any position.'']),
                    Console ''User pointed position sent to the model'']) \<and>
    drawPointedPosition en img x y r = Inr img \<and>
    drawPointedPosition en img None y r = Inr img \<and>
    drawPointedPosition en img x None r = Inr img"
  using assms
  by (auto simp add: coords_absent_def hasPositionChanged_def checkPointedPositionVariation_def
      sendImgWithPositionAndHotspot_def drawPointedPosition_def not_pointing_content_def Let_def)

theorem partial_coordinates_not_pointing_witness:
  "((Some (binary64 10 0) :: float64 option) = None) \<noteq> ((None :: float64 option) = None) \<and>
   coords_absent (Some (binary64 10 0), None) \<and>
   hasPositionChanged (Some (binary64 10 0), None) (Some (binary64 10 0), Some (binary64 20 0)) \<and>
   \<not> hasPositionChanged (None, None) (Some (binary64 10 0), None) \<and>
   sent (trace (snd (sendImgWithPositionAndHotspot example_env (Some (binary64 10 0)) None (Some ''Door'') example_state))) =
     [ConversationItemCreate [InputText ''The user is not pointing any position.'']] \<and>
   drawPointedPosition example_env ''gray'' (Some (binary64 10 0)) None 9 = Inr ''gray''"
  using partial_coordinates_not_pointing [of "Some (binary64 10 0)" None "(Some (binary64 10 0), Some (binary64 20 0))" "(None, None)"
      example_state example_env "Some ''Door''" "''gray''" 9]
  by (simp add: example_state_def initial_state_def truthy_def hasPositionChanged_def
      checkPointedPositionVariation_def)

section \<open>The first detection cycle\<close>

text \<open>
  Claim C2, as stated, at a concrete input: \<open>lastCoords\<close> starts at the placeholder pair
  (100000, 100000), which is a present position; a user who starts without pointing is
  therefore reported as a change on the first cycle.
\<close>

theorem first_cycle_not_pointing_counterexample:
  "hasPositionChanged (None, None) (getLastCoords (resetLastCoords initial_state)) = True"
  by (simp add: hasPositionChanged_def checkPointedPositionVariation_def getLastCoords_def
      resetLastCoords_def)

text \<open>
  Claim C2, amended. \<open>lastCoords\<close> is initialised, and reset at session start, to the
  placeholder pair (100000, 100000). On the first detection cycle the detector returns true
  when the user is not pointing, and when the user is pointing it returns true exactly when
  the position is at least 5 away from 100000 on the x axis or on the y axis, which every
  position inside a drawing is.
\<close>

theorem first_cycle_detection:
  "lastCoords initial_state = (Some (binary64 100000 0), Some (binary64 100000 0)) \<and>
   getLastCoords (resetLastCoords s) = (Some (binary64 100000 0), Some (binary64 100000 0)) \<and>
   valof (binary64 100000 0) = 100000 \<and>
   (coords_absent cur \<longrightarrow> hasPositionChanged cur (getLastCoords (resetLastCoords s))) \<and>
   (cur = (Some x, Some y) \<longrightarrow>
      hasPositionChanged cur (getLastCoords (resetLastCoords s)) =
        (\<bar>valof x - 100000\<bar> \<ge> 5 \<or> \<bar>valof y - 100000\<bar> \<ge> 5))"
proof -
  have last: "getLastCoords (resetLastCoords s) = (Some (binary64 100000 0), Some (binary64 100000 0))"
    by (simp add: getLastCoords_def resetLastCoords_def)
  have absent: "hasPositionChanged cur (getLastCoords (resetLastCoords s))" if "coords_absent cur"
    unfolding last using that absent_cases(2) [of cur] by (simp add: coords_absent_def)
  have present: "hasPositionChanged cur (getLastCoords (resetLastCoords s)) =
        (\<bar>valof x - 100000\<bar> \<ge> 5 \<or> \<bar>valof y - 100000\<bar> \<ge> 5)" if "cur = (Some x, Some y)"
    unfolding last that hasPositionChanged_present
    by (simp only: valof_examples placeholder_difference_threshold)
  show ?thesis
    using last absent present by (simp add: initial_state_def initial_lastCoords_def)
qed

theorem first_cycle_detection_witness:
  "coords_absent (None, None) \<and>
   hasPositionChanged (None, None) (getLastCoords (resetLastCoords example_state)) \<and>
   hasPositionChanged (Some (binary64 10 0), Some (binary64 20 0))
     (getLastCoords (resetLastCoords example_state)) \<and>
   \<not> hasPositionChanged (Some (binary64 100000 0), Some (binary64 99999 0))
       (getLastCoords (resetLastCoords example_state))"
  using first_cycle_detection [of example_state "(None, None)"]
    first_cycle_detection [of example_state "(Some (binary64 10 0), Some (binary64 20 0))"
      "binary64 10 0" "binary64 20 0"]
    first_cycle_detection [of example_state "(Some (binary64 100000 0), Some (binary64 99999 0))"
      "binary64 100000 0" "binary64 99999 0"]
  by (simp add: coords_absent_def getLastCoords_def resetLastCoords_def)

section \<open>The pointed-position update flow\<close>

lemma logStatus_error_fields [simp]:
  "trace (logStatus_error c d s) = trace s @ [Console (''['' @ c @ ''] Error '' @ d)]"
  "dataChannel (logStatus_error c d s) = dataChannel s"
  "localStream (logStatus_error c d s) = localStream s"
  "peerConnection (logStatus_error c d s) = peerConnection s"
  "audioElement (logStatus_error c d s) = audioElement s"
  "elements (logStatus_error c d s) = elements s"
  "lastCoords (logStatus_error c d s) = lastCoords s"
  by (simp_all add: logStatus_error_def)

lemma startResponseTimer_fields [simp]:
  "trace (startResponseTimer en s) = trace s @ [TimerStarted (now en)]"
  "dataChannel (startResponseTimer en s) = dataChannel s"
  "localStream (startResponseTimer en s) = localStream s"
  "peerConnection (startResponseTimer en s) = peerConnection s"
  "audioElement (startResponseTimer en s) = audioElement s"
  "lastCoords (startResponseTimer en s) = lastCoords s"
  by (simp_all add: startResponseTimer_def)

lemma release_events_cong:
  assumes "dataChannel s' = dataChannel s" "localStream s' = localStream s"
    "peerConnection s' = peerConnection s" "audioElement s' = audioElement s"
    "(elements s' = None) = (elements s = None)"
  shows "release_events s' = release_events s"
  using assms by (simp add: release_events_def ui_events_def)

lemma release_events_emit [simp]: "release_events (emit ev s) = release_events s"
  by (rule release_events_cong) simp_all

lemma release_events_lastCoords [simp]: "release_events (s\<lparr>lastCoords := c\<rparr>) = release_events s"
  by (rule release_events_cong) simp_all

lemma release_events_logStatus [simp]:
  "release_events (logStatus_error c d s) = release_events s"
  by (rule release_events_cong) simp_all

lemma release_events_send [simp]: "release_events (send m s) = release_events s"
  by (rule release_events_cong) simp_all

lemma torn_down_stopSession:
  assumes "trace s1 = trace s @ pre"
    and "dataChannel s1 = dataChannel s" "localStream s1 = localStream s"
    and "peerConnection s1 = peerConnection s" "audioElement s1 = audioElement s"
  shows "torn_down s (stopSession s1)"
  using assms by (auto simp add: torn_down_def release_events_def)

lemma not_torn_down:
  assumes "trace s' = trace s @ new" "Console ''Session closed'' \<notin> set new"
  shows "\<not> torn_down s s'"
  using assms by (simp add: torn_down_def)

lemma sendPointedPositionIfNecessary_try_eq:
  assumes "elements s = Some el"
  shows "sendPointedPositionIfNecessary_try en s =
    (if hasPositionChanged (current_coords el) (lastCoords s)
     then sendImgWithPositionAndHotspot en (xCoord_valueAsNumber el) (yCoord_valueAsNumber el)
            (current_hotspot el)
            (emit (LastCoordsWritten (current_coords el)) (s\<lparr>lastCoords := current_coords el\<rparr>))
     else (None, s))"
  using assms
  by (cases "lastCoords s")
    (simp add: sendPointedPositionIfNecessary_try_def getCurrentPointedPosition_def
      getCurrentHotspot_def getLastCoords_def hasPositionChanged_def current_coords_def
      current_hotspot_def)


lemma sendPointedPositionIfNecessary_alt:
  "sendPointedPositionIfNecessary en s =
     (case fst (sendPointedPositionIfNecessary_try en s) of
        None \<Rightarrow> snd (sendPointedPositionIfNecessary_try en s)
      | Some err \<Rightarrow>
          stopSession (emit (Console (exn_message err)) (snd (sendPointedPositionIfNecessary_try en s))))"
  by (cases "sendPointedPositionIfNecessary_try en s")
    (simp add: sendPointedPositionIfNecessary_def split: option.splits)



lemma cannot_build_written [simp]:
  "cannot_build en (emit ev (s\<lparr>lastCoords := c\<rparr>)) cur = cannot_build en s cur"
  by (simp add: cannot_build_def)

lemma position_content_written [simp]:
  "position_content en (emit ev (s\<lparr>lastCoords := c\<rparr>)) cur h = position_content en s cur h"
  by (simp add: position_content_def)



lemma sendPointedPositionIfNecessary_unchanged:
  assumes "elements s = Some el" "\<not> hasPositionChanged (current_coords el) (lastCoords s)"
  shows "sendPointedPositionIfNecessary en s = s"
  using assms by (simp add: sendPointedPositionIfNecessary_alt sendPointedPositionIfNecessary_try_eq)






text \<open>
  Claim C7. On a turn boundary where the detector reports no change between the current
  pointing state and \<open>lastCoords\<close>, the update flow does nothing: the state is the one it
  started from, so no message is sent and \<open>lastCoords\<close> is unchanged.
\<close>

theorem unchanged_position_does_nothing:
  assumes "elements s = Some el"
    "\<not> hasPositionChanged (xCoord_valueAsNumber el, yCoord_valueAsNumber el) (lastCoords s)"
  shows "sendPointedPositionIfNecessary en s = s \<and>
    sent (trace (sendPointedPositionIfNecessary en s)) = sent (trace s) \<and>
    lastCoords (sendPointedPositionIfNecessary en s) = lastCoords s"
  using assms sendPointedPositionIfNecessary_unchanged [of s el en]
  by (simp add: current_coords_def)

theorem unchanged_position_does_nothing_witness:
  "elements (example_state\<lparr>lastCoords := (Some (binary64 12 0), Some (binary64 17 0))\<rparr>) =
     Some example_ui \<and>
   \<not> hasPositionChanged (xCoord_valueAsNumber example_ui, yCoord_valueAsNumber example_ui)
        (lastCoords (example_state\<lparr>lastCoords := (Some (binary64 12 0), Some (binary64 17 0))\<rparr>)) \<and>
   sendPointedPositionIfNecessary example_env
       (example_state\<lparr>lastCoords := (Some (binary64 12 0), Some (binary64 17 0))\<rparr>) =
     example_state\<lparr>lastCoords := (Some (binary64 12 0), Some (binary64 17 0))\<rparr>"
  using unchanged_position_does_nothing
    [of "example_state\<lparr>lastCoords := (Some (binary64 12 0), Some (binary64 17 0))\<rparr>"
      example_ui example_env]
  by (simp add: example_state_def example_ui_def hasPositionChanged_present)



lemma example_state_fields [simp]:
  "elements example_state = Some example_ui"
  "lastCoords example_state = (Some (binary64 100000 0), Some (binary64 100000 0))"
  "dataChannel example_state = Some 4" "localStream example_state = Some 3"
  "peerConnection example_state = Some 1" "audioElement example_state = Some 2"
  "grayScaleBase64Template example_state = Some ''gray''"
  "trace example_state = []"
  "audioResponsesOn example_state = False"
  by (simp_all add: example_state_def initial_state_def initial_lastCoords_def)

lemma example_ui_fields [simp]:
  "current_coords example_ui = (Some (binary64 10 0), Some (binary64 20 0))"
  "current_hotspot example_ui = Some ''Door''"
  "xCoord_valueAsNumber example_ui = Some (binary64 10 0)"
  "yCoord_valueAsNumber example_ui = Some (binary64 20 0)"
  by (simp_all add: current_coords_def current_hotspot_def example_ui_def)

lemma example_drawMarker [simp]:
  "drawMarker example_env img x y r = Inr (img @ ''+marker'')"
  "now example_env = 1000"
  by (simp_all add: example_env_def)






section \<open>Input committed\<close>

lemma stopSession_elements [simp]: "(elements (stopSession s) = None) = (elements s = None)"
  by (cases "elements s")
    (simp_all add: stopSession_def Let_def handleSessionState_def handleAudioState_def emit_def)












section \<open>The sleep word\<close>

lemma feedbackAudioDisabled_open:
  assumes "dataChannel s \<noteq> None"
  shows "feedbackAudioDisabled s =
    send (ResponseCreate (Some \<lparr>output_modalities = Some [''audio''],
            instructions = Some audio_disabled_instructions\<rparr>)) s"
  using assms by (auto simp add: feedbackAudioDisabled_def)

lemma handle_function_call:
  assumes "msg_type msg = ''response.function_call_arguments.done''"
  shows "handleDataChannelMessages en (Parsed msg) s = handleFunctionCalls (msg_name msg) s"
  using assms
  by (simp add: handleDataChannelMessages_def handleDataChannelMessages_try_def Let_def)

lemma sleep_word_effects:
  assumes "dataChannel s \<noteq> None"
  shows "(\<not> audioResponsesOn s \<longrightarrow>
      sent (trace (handleFunctionCalls (Some ''sleep_word'') s)) =
        sent (trace s) @ [ResponseCreate (Some \<lparr>output_modalities = None,
           instructions = Some audio_already_disabled_instructions\<rparr>)] \<and>
      \<not> audioResponsesOn (handleFunctionCalls (Some ''sleep_word'') s)) \<and>
    (audioResponsesOn s \<and> elements s \<noteq> None \<longrightarrow>
      sent (trace (handleFunctionCalls (Some ''sleep_word'') s)) =
        sent (trace s) @ [SessionUpdate (SessionModalities [''text'']),
           ResponseCreate (Some \<lparr>output_modalities = Some [''audio''],
             instructions = Some audio_disabled_instructions\<rparr>)] \<and>
      \<not> audioResponsesOn (handleFunctionCalls (Some ''sleep_word'') s) \<and>
      (\<exists>s1. handleFunctionCalls (Some ''sleep_word'') s = feedbackAudioDisabled s1 \<and>
         \<not> audioResponsesOn s1 \<and>
         sent (trace s1) = sent (trace s) @ [SessionUpdate (SessionModalities [''text''])]))"
proof (intro conjI impI)
  assume off: "\<not> audioResponsesOn s"
  show "sent (trace (handleFunctionCalls (Some ''sleep_word'') s)) =
        sent (trace s) @ [ResponseCreate (Some \<lparr>output_modalities = None,
           instructions = Some audio_already_disabled_instructions\<rparr>)]"
    using assms off by (auto simp add: handleFunctionCalls_def disableAudio_def Let_def sent_append)
  show "\<not> audioResponsesOn (handleFunctionCalls (Some ''sleep_word'') s)"
    using assms off by (auto simp add: handleFunctionCalls_def disableAudio_def Let_def)
next
  assume on: "audioResponsesOn s \<and> elements s \<noteq> None"
  define s1 where "s1 = handleAudioState False
      (send (SessionUpdate (SessionModalities [''text'']))
         (emit (Console ''Called function disableAudio()'') s))"
  have res: "handleFunctionCalls (Some ''sleep_word'') s = feedbackAudioDisabled s1"
    using assms on by (auto simp add: handleFunctionCalls_def disableAudio_def Let_def s1_def)
  have s1_off: "\<not> audioResponsesOn s1"
    using on by (simp add: s1_def)
  have s1_sent: "sent (trace s1) = sent (trace s) @ [SessionUpdate (SessionModalities [''text''])]"
    using on by (simp add: s1_def sent_append ui_events_def)
  have s1_open: "dataChannel s1 \<noteq> None"
    using assms by (auto simp add: s1_def)
  show "sent (trace (handleFunctionCalls (Some ''sleep_word'') s)) =
        sent (trace s) @ [SessionUpdate (SessionModalities [''text'']),
           ResponseCreate (Some \<lparr>output_modalities = Some [''audio''],
             instructions = Some audio_disabled_instructions\<rparr>)]"
    by (simp add: res feedbackAudioDisabled_open [OF s1_open] sent_append s1_sent)
  show "\<not> audioResponsesOn (handleFunctionCalls (Some ''sleep_word'') s)"
    using s1_off by (simp add: res feedbackAudioDisabled_open [OF s1_open])
  show "\<exists>s1. handleFunctionCalls (Some ''sleep_word'') s = feedbackAudioDisabled s1 \<and>
         \<not> audioResponsesOn s1 \<and>
         sent (trace s1) = sent (trace s) @ [SessionUpdate (SessionModalities [''text''])]"
    using res s1_off s1_sent by blast
qed

text \<open>
  Claim C8. A \<open>response.function_call_arguments.done\<close> event naming \<open>sleep_word\<close>, on an
  open data channel. When audio output is already disabled, exactly one \<open>response.create\<close>
  is sent and no \<open>session.update\<close>; the request carries the "already disabled" instructions
  and no output modality of its own, so the reply comes in the modality of the session, which
  \<open>createSessionConfig\<close> and \<open>disableAudio\<close> set to text. When audio output is enabled (the
  page's elements being bound, as they are from \<open>init\<close> on), the driver sends the
  \<open>session.update\<close> that switches the output modality to text, sets \<open>audioResponsesOn\<close> to
  false, and then sends exactly one \<open>response.create\<close>, with the output modality audio and
  the "has been disabled" instructions.
\<close>

theorem sleep_word_toggle:
  assumes "msg_type msg = ''response.function_call_arguments.done''"
    and "msg_name msg = Some ''sleep_word''"
    and "dataChannel s \<noteq> None"
  shows "(\<not> audioResponsesOn s \<longrightarrow>
      sent (trace (handleDataChannelMessages en (Parsed msg) s)) =
        sent (trace s) @ [ResponseCreate (Some \<lparr>output_modalities = None,
           instructions = Some audio_already_disabled_instructions\<rparr>)] \<and>
      \<not> audioResponsesOn (handleDataChannelMessages en (Parsed msg) s)) \<and>
    (audioResponsesOn s \<and> elements s \<noteq> None \<longrightarrow>
      sent (trace (handleDataChannelMessages en (Parsed msg) s)) =
        sent (trace s) @ [SessionUpdate (SessionModalities [''text'']),
           ResponseCreate (Some \<lparr>output_modalities = Some [''audio''],
             instructions = Some audio_disabled_instructions\<rparr>)] \<and>
      \<not> audioResponsesOn (handleDataChannelMessages en (Parsed msg) s) \<and>
      (\<exists>s1. handleDataChannelMessages en (Parsed msg) s = feedbackAudioDisabled s1 \<and>
         \<not> audioResponsesOn s1 \<and>
         sent (trace s1) = sent (trace s) @ [SessionUpdate (SessionModalities [''text''])]))"
  using sleep_word_effects [OF assms(3)] assms(2)
  by (simp add: handle_function_call [OF assms(1)])

theorem sleep_word_toggle_witness:
  "msg_type sleep_word_message = ''response.function_call_arguments.done'' \<and>
   msg_name sleep_word_message = Some ''sleep_word'' \<and>
   dataChannel example_state \<noteq> None \<and> \<not> audioResponsesOn example_state \<and>
   sent (trace (handleDataChannelMessages example_env (Parsed sleep_word_message) example_state)) =
     [ResponseCreate (Some \<lparr>output_modalities = None,
        instructions = Some audio_already_disabled_instructions\<rparr>)] \<and>
   dataChannel (example_state\<lparr>audioResponsesOn := True\<rparr>) \<noteq> None \<and>
   audioResponsesOn (example_state\<lparr>audioResponsesOn := True\<rparr>) \<and>
   elements (example_state\<lparr>audioResponsesOn := True\<rparr>) \<noteq> None \<and>
   sent (trace (handleDataChannelMessages example_env (Parsed sleep_word_message)
      (example_state\<lparr>audioResponsesOn := True\<rparr>))) =
     [SessionUpdate (SessionModalities [''text'']),
      ResponseCreate (Some \<lparr>output_modalities = Some [''audio''],
        instructions = Some audio_disabled_instructions\<rparr>)] \<and>
   \<not> audioResponsesOn (handleDataChannelMessages example_env (Parsed sleep_word_message)
      (example_state\<lparr>audioResponsesOn := True\<rparr>))"
  using sleep_word_toggle [of sleep_word_message example_state example_env]
    sleep_word_toggle [of sleep_word_message "example_state\<lparr>audioResponsesOn := True\<rparr>" example_env]
  by (simp add: sleep_word_message_def example_message_def)

section \<open>Error events\<close>

lemma handle_error:
  assumes "msg_type msg = ''error''"
  shows "handleDataChannelMessages en (Parsed msg) s =
    (let s1 = (if truthy (error_message (msg_error msg))
               then logStatus_error ''DataChannel'' (the (error_message (msg_error msg))) s else s)
     in case msg_error msg of
          None \<Rightarrow> stopSession (logStatus_error ''DataChannel'' ''code'' s1)
        | Some e \<Rightarrow> if error_code e \<noteq> Some ''conversation_already_has_active_response''
                    then stopSession s1 else s1)"
  using assms
  by (simp add: handleDataChannelMessages_def handleDataChannelMessages_try_def Let_def
      exn_message_def split: option.splits)

lemma trace_stopSession_logs:
  assumes "trace s1 = trace s @ map Console logs"
    and "dataChannel s1 = dataChannel s" "localStream s1 = localStream s"
    and "peerConnection s1 = peerConnection s" "audioElement s1 = audioElement s"
    and "(elements s1 = None) = (elements s = None)"
  shows "trace (stopSession s1) = trace s @ map Console logs @ release_events s"
  using assms by (simp add: release_events_cong [of s1 s])

text \<open>
  Claim C9. For every inbound event of type \<open>error\<close>, the session is torn down if and only
  if the error code is not \<open>conversation_already_has_active_response\<close>. When it is torn
  down, the effects of the handler are console lines followed by the teardown: the release
  of every transport object that was held (the data channel closed, the tracks stopped, the
  peer connection closed, the audio element removed) and the line "Session closed"; all four
  objects are forgotten. An event with that code adds console lines only, none of them
  "Session closed", and leaves the four objects as they were.
\<close>

theorem error_event_termination:
  assumes "msg_type msg = ''error''"
  shows "torn_down s (handleDataChannelMessages en (Parsed msg) s) =
      (message_code msg \<noteq> Some ''conversation_already_has_active_response'') \<and>
    (message_code msg \<noteq> Some ''conversation_already_has_active_response'' \<longrightarrow>
       (\<exists>logs. trace (handleDataChannelMessages en (Parsed msg) s) =
          trace s @ map Console logs @ release_events s) \<and>
       dataChannel (handleDataChannelMessages en (Parsed msg) s) = None \<and>
       localStream (handleDataChannelMessages en (Parsed msg) s) = None \<and>
       peerConnection (handleDataChannelMessages en (Parsed msg) s) = None \<and>
       audioElement (handleDataChannelMessages en (Parsed msg) s) = None) \<and>
    (message_code msg = Some ''conversation_already_has_active_response'' \<longrightarrow>
       (\<exists>logs. trace (handleDataChannelMessages en (Parsed msg) s) =
          trace s @ map Console logs \<and> ''Session closed'' \<notin> set logs) \<and>
       dataChannel (handleDataChannelMessages en (Parsed msg) s) = dataChannel s \<and>
       localStream (handleDataChannelMessages en (Parsed msg) s) = localStream s \<and>
       peerConnection (handleDataChannelMessages en (Parsed msg) s) = peerConnection s \<and>
       audioElement (handleDataChannelMessages en (Parsed msg) s) = audioElement s)"
proof -
  define h where "h = handleDataChannelMessages en (Parsed msg) s"
  define logs where "logs = (if truthy (error_message (msg_error msg))
      then [''[DataChannel] Error '' @ the (error_message (msg_error msg))] else [])"
  define s1 where "s1 = (if truthy (error_message (msg_error msg))
      then logStatus_error ''DataChannel'' (the (error_message (msg_error msg))) s else s)"
  have s1: "trace s1 = trace s @ map Console logs" "dataChannel s1 = dataChannel s"
    "localStream s1 = localStream s" "peerConnection s1 = peerConnection s"
    "audioElement s1 = audioElement s" "(elements s1 = None) = (elements s = None)"
    by (simp_all add: s1_def logs_def)
  have nc: "''Session closed'' \<notin> set logs"
    by (simp add: logs_def)
  have stopped: "torn_down s h \<and>
      (\<exists>logs. trace h = trace s @ map Console logs @ release_events s) \<and>
      dataChannel h = None \<and> localStream h = None \<and> peerConnection h = None \<and>
      audioElement h = None"
    if hh: "h = stopSession s2" and s2: "trace s2 = trace s1 @ map Console more"
      "dataChannel s2 = dataChannel s1" "localStream s2 = localStream s1"
      "peerConnection s2 = peerConnection s1" "audioElement s2 = audioElement s1"
      "(elements s2 = None) = (elements s1 = None)"
    for s2 more
  proof -
    have t2: "trace s2 = trace s @ map Console (logs @ more)"
      by (simp add: s2 s1)
    have "trace h = trace s @ map Console (logs @ more) @ release_events s"
      unfolding hh
      by (rule trace_stopSession_logs [OF t2]) (simp_all add: s2 s1)
    then have "\<exists>logs. trace h = trace s @ map Console logs @ release_events s"
      by blast
    moreover have "torn_down s h"
      unfolding hh
      by (rule torn_down_stopSession [OF t2 [unfolded map_append]]) (simp_all add: s2 s1)
    moreover have "dataChannel h = None" "localStream h = None" "peerConnection h = None"
      "audioElement h = None"
      by (simp_all add: hh)
    ultimately show ?thesis
      by blast
  qed
  show ?thesis
  proof (cases "msg_error msg")
    case None
    have hh: "h = stopSession (logStatus_error ''DataChannel'' ''code'' s1)"
      using None by (simp add: h_def handle_error [OF assms] s1_def)
    have "message_code msg \<noteq> Some ''conversation_already_has_active_response''"
      using None by (simp add: message_code_def)
    then show ?thesis
      using stopped [OF hh, of "[''[DataChannel] Error code'']"]
      by (simp add: h_def [symmetric])
  next
    case (Some e)
    show ?thesis
    proof (cases "error_code e = Some ''conversation_already_has_active_response''")
      case True
      have hh: "h = s1"
        using Some True by (simp add: h_def handle_error [OF assms] s1_def Let_def)
      have "\<not> torn_down s h"
        unfolding hh by (rule not_torn_down [OF s1(1)]) (use nc in auto)
      moreover have "message_code msg = Some ''conversation_already_has_active_response''"
        using Some True by (simp add: message_code_def)
      ultimately show ?thesis
        using s1 nc by (auto simp add: h_def [symmetric] hh)
    next
      case False
      have hh: "h = stopSession s1"
        using Some False by (simp add: h_def handle_error [OF assms] s1_def Let_def)
      have "message_code msg \<noteq> Some ''conversation_already_has_active_response''"
        using Some False by (simp add: message_code_def)
      then show ?thesis
        using stopped [OF hh, of "[]"]
        by (simp add: h_def [symmetric])
    qed
  qed
qed

theorem error_event_termination_witness:
  "msg_type benign_error_message = ''error'' \<and>
   message_code benign_error_message = Some ''conversation_already_has_active_response'' \<and>
   \<not> torn_down example_state
       (handleDataChannelMessages example_env (Parsed benign_error_message) example_state) \<and>
   dataChannel (handleDataChannelMessages example_env (Parsed benign_error_message) example_state) =
     Some 4 \<and>
   trace (handleDataChannelMessages example_env (Parsed benign_error_message) example_state) =
     [Console ''[DataChannel] Error Conversation already has an active response''] \<and>
   msg_type other_error_message = ''error'' \<and>
   message_code other_error_message = Some ''session_expired'' \<and>
   torn_down example_state
     (handleDataChannelMessages example_env (Parsed other_error_message) example_state) \<and>
   dataChannel (handleDataChannelMessages example_env (Parsed other_error_message) example_state) =
     None \<and>
   trace (handleDataChannelMessages example_env (Parsed other_error_message) example_state) =
     [Console ''[DataChannel] Error Session expired'', DataChannelClosed, TracksStopped,
      PeerConnectionClosed, AudioElementRemoved, Console ''Session closed''] \<and>
   msg_type (example_message ''error'') = ''error'' \<and>
   message_code (example_message ''error'') = None \<and>
   torn_down example_state
     (handleDataChannelMessages example_env (Parsed (example_message ''error'')) example_state)"
proof -
  have m: "msg_type benign_error_message = ''error''" "msg_type other_error_message = ''error''"
    "msg_type (example_message ''error'') = ''error''"
    by (simp_all add: benign_error_message_def other_error_message_def example_message_def)
  have c: "message_code benign_error_message = Some ''conversation_already_has_active_response''"
    "message_code other_error_message = Some ''session_expired''"
    "message_code (example_message ''error'') = None"
    by (simp_all add: benign_error_message_def other_error_message_def example_message_def
        message_code_def error_code_def)
  have t1: "trace (handleDataChannelMessages example_env (Parsed benign_error_message)
        example_state) =
      [Console ''[DataChannel] Error Conversation already has an active response'']"
    by (simp add: handle_error [OF m(1)])
      (simp add: benign_error_message_def example_message_def error_message_def truthy_def
        error_code_def)
  have t2: "trace (handleDataChannelMessages example_env (Parsed other_error_message)
        example_state) =
      [Console ''[DataChannel] Error Session expired'', DataChannelClosed, TracksStopped,
       PeerConnectionClosed, AudioElementRemoved, Console ''Session closed'']"
    by (simp add: handle_error [OF m(2)])
      (simp add: other_error_message_def example_message_def error_message_def truthy_def
        error_code_def release_events_def ui_events_def)
  show ?thesis
    using error_event_termination [OF m(1), of example_state example_env]
      error_event_termination [OF m(2), of example_state example_env]
      error_event_termination [OF m(3), of example_state example_env]
      m c t1 t2
    by simp
qed

section \<open>Compression to the byte budget\<close>

lemma compress_loop_negative:
  "quality < 0 \<Longrightarrow> compress_loop en webpBlob maxKB quality = Inr None"
  by (simp add: compress_loop.simps)

lemma compress_loop_step:
  assumes "0 \<le> quality"
    and "compress_loop en webpBlob maxKB (quality - 0.1) = compressToBudget en webpBlob maxKB qs"
  shows "compress_loop en webpBlob maxKB quality = compressToBudget en webpBlob maxKB (quality # qs)"
  using assms
  by (subst compress_loop.simps) (simp add: checkBlobSize_def split: sum.splits)

lemma compress_loop_steps:
  "compress_loop en webpBlob maxKB 0.9 = compressToBudget en webpBlob maxKB quality_steps"
proof -
  have e0: "compress_loop en webpBlob maxKB (0 - 0.1) = compressToBudget en webpBlob maxKB []"
    by (simp add: compress_loop_negative)
  have e1: "compress_loop en webpBlob maxKB 0 = compressToBudget en webpBlob maxKB [0]"
    by (rule compress_loop_step [OF _ e0]) simp
  have e2: "compress_loop en webpBlob maxKB 0.1 = compressToBudget en webpBlob maxKB [0.1, 0]"
    by (rule compress_loop_step) (use e1 in simp_all)
  have e3: "compress_loop en webpBlob maxKB 0.2 = compressToBudget en webpBlob maxKB [0.2, 0.1, 0]"
    by (rule compress_loop_step) (use e2 in simp_all)
  have e4: "compress_loop en webpBlob maxKB 0.3 =
      compressToBudget en webpBlob maxKB [0.3, 0.2, 0.1, 0]"
    by (rule compress_loop_step) (use e3 in simp_all)
  have e5: "compress_loop en webpBlob maxKB 0.4 =
      compressToBudget en webpBlob maxKB [0.4, 0.3, 0.2, 0.1, 0]"
    by (rule compress_loop_step) (use e4 in simp_all)
  have e6: "compress_loop en webpBlob maxKB 0.5 =
      compressToBudget en webpBlob maxKB [0.5, 0.4, 0.3, 0.2, 0.1, 0]"
    by (rule compress_loop_step) (use e5 in simp_all)
  have e7: "compress_loop en webpBlob maxKB 0.6 =
      compressToBudget en webpBlob maxKB [0.6, 0.5, 0.4, 0.3, 0.2, 0.1, 0]"
    by (rule compress_loop_step) (use e6 in simp_all)
  have e8: "compress_loop en webpBlob maxKB 0.7 =
      compressToBudget en webpBlob maxKB [0.7, 0.6, 0.5, 0.4, 0.3, 0.2, 0.1, 0]"
    by (rule compress_loop_step) (use e7 in simp_all)
  have e9: "compress_loop en webpBlob maxKB 0.8 =
      compressToBudget en webpBlob maxKB [0.8, 0.7, 0.6, 0.5, 0.4, 0.3, 0.2, 0.1, 0]"
    by (rule compress_loop_step) (use e8 in simp_all)
  show ?thesis
    unfolding quality_steps_def by (rule compress_loop_step) (use e9 in simp_all)
qed

lemma compressToBudget_Some:
  "compressToBudget en webpBlob maxKB qs = Inr (Some p) \<Longrightarrow>
     \<exists>q \<in> set qs. \<exists>cb. compressWebpBlob en webpBlob q = Inr cb \<and>
        blobSizeInKB cb \<le> maxKB \<and> imageToBase64 en cb = Inr p"
  by (induction qs) (auto split: sum.splits if_splits)

lemma compressToBudget_None:
  "compressToBudget en webpBlob maxKB qs = Inr None \<Longrightarrow>
     \<forall>q \<in> set qs. \<exists>cb. compressWebpBlob en webpBlob q = Inr cb \<and> \<not> blobSizeInKB cb \<le> maxKB"
  by (induction qs) (auto split: sum.splits if_splits)

lemma getSendableImage_Some:
  assumes "getSendableImage en img = Inr (Some p)"
  shows "\<exists>b. blobSizeInKB b \<le> 220 \<and> imageToBase64 en b = Inr p"
proof -
  from assms obtain webpBlob where
    fit: "(checkBlobSize webpBlob 220 \<and> imageToBase64 en webpBlob = Inr p) \<or>
          compress_loop en webpBlob 220 0.9 = Inr (Some p)"
    by (auto simp add: getSendableImage_def getSendableImage_try_def Let_def
        split: sum.splits if_splits)
  then show ?thesis
    using compressToBudget_Some [of en webpBlob 220 quality_steps p]
    by (auto simp add: compress_loop_steps checkBlobSize_def)
qed

lemma example_env_fields [simp]:
  "compressWebpBlob example_env = (\<lambda>b q. Inr b)"
  "imageToBase64 example_env = (\<lambda>b. Inr (blob_data b))"
  "base64ToBlob example_env = (\<lambda>b. Inr (example_blob b))"
  "reduceResolution example_env = Inr"
  "toWebp example_env = Inr"
  "getFileData example_env = Inr \<lparr>data_json = ''{}'', data_metadata_lang = Some (Some ''it-IT'')\<rparr>"
  "getFileTemplate example_env = Inr ''template''"
  "getFileColorMap example_env = Inr ''colorMap''"
  by (simp_all add: example_env_def)

lemma example_never_fits:
  "compress_loop example_env (example_blob b) 220 0.9 = Inr None"
  by (simp add: compress_loop_steps quality_steps_def blobSizeInKB_def example_blob_def)

lemma example_getSendableImage: "getSendableImage example_env b = Inr None"
  by (simp add: getSendableImage_def getSendableImage_try_def example_never_fits)
    (simp add: checkBlobSize_def blobSizeInKB_def example_blob_def)

lemma shrinking_fits:
  "compress_loop shrinking_env (example_blob b) 220 0.9 = Inr (Some b)"
  by (simp add: compress_loop_steps quality_steps_def blobSizeInKB_def example_blob_def
      shrinking_env_def)

text \<open>
  Claim C5. The recompression loop of \<open>getSendableImage\<close> is a total function (its
  definition carries the termination proof), and for every environment, image and budget it
  is the bounded iteration over the ten quality steps 0.9, 0.8, ..., 0.0. When it returns a
  payload, that payload encodes a blob compressed at one of these steps whose size is at or
  below the budget; when it returns absent, every one of the ten steps was tried and gave a
  blob above the budget. A failure of the encoder is raised to the caller and is neither
  value. A payload returned by \<open>getSendableImage\<close> encodes a blob of at most 220 KB.
\<close>

theorem compress_loop_bounded:
  "compress_loop en webpBlob maxKB 0.9 = compressToBudget en webpBlob maxKB quality_steps \<and>
   length quality_steps = 10 \<and>
   (compress_loop en webpBlob maxKB 0.9 = Inr (Some p) \<longrightarrow>
      (\<exists>q \<in> set quality_steps. \<exists>cb. compressWebpBlob en webpBlob q = Inr cb \<and>
         blobSizeInKB cb \<le> maxKB \<and> imageToBase64 en cb = Inr p)) \<and>
   (compress_loop en webpBlob maxKB 0.9 = Inr None \<longrightarrow>
      (\<forall>q \<in> set quality_steps. \<exists>cb. compressWebpBlob en webpBlob q = Inr cb \<and>
         \<not> blobSizeInKB cb \<le> maxKB)) \<and>
   (getSendableImage en img = Inr (Some p) \<longrightarrow>
      (\<exists>b. blobSizeInKB b \<le> 220 \<and> imageToBase64 en b = Inr p))"
  using compressToBudget_Some [of en webpBlob maxKB quality_steps p]
    compressToBudget_None [of en webpBlob maxKB quality_steps]
    getSendableImage_Some [of en img p]
  by (simp add: compress_loop_steps) (simp add: quality_steps_def)

theorem compress_loop_bounded_witness:
  "compress_loop shrinking_env (example_blob ''template'') 220 0.9 = Inr (Some ''template'') \<and>
   (\<exists>q \<in> set quality_steps. \<exists>cb.
      compressWebpBlob shrinking_env (example_blob ''template'') q = Inr cb \<and>
      blobSizeInKB cb \<le> 220 \<and> imageToBase64 shrinking_env cb = Inr ''template'') \<and>
   compress_loop example_env (example_blob ''template'') 220 0.9 = Inr None \<and>
   (\<exists>cb. compressWebpBlob example_env (example_blob ''template'') 0.9 = Inr cb \<and>
      \<not> blobSizeInKB cb \<le> 220) \<and>
   (\<exists>cb. compressWebpBlob example_env (example_blob ''template'') 0 = Inr cb \<and>
      \<not> blobSizeInKB cb \<le> 220)"
proof -
  have fits: "compress_loop shrinking_env (example_blob ''template'') 220 0.9 = Inr (Some ''template'')"
    by (rule shrinking_fits)
  have never: "compress_loop example_env (example_blob ''template'') 220 0.9 = Inr None"
    by (rule example_never_fits)
  have first: "(0.9 :: number) \<in> set quality_steps" and last: "(0 :: number) \<in> set quality_steps"
    by (simp_all add: quality_steps_def)
  have some: "\<exists>q \<in> set quality_steps. \<exists>cb.
      compressWebpBlob shrinking_env (example_blob ''template'') q = Inr cb \<and>
      blobSizeInKB cb \<le> 220 \<and> imageToBase64 shrinking_env cb = Inr ''template''"
    using compress_loop_bounded
      [of shrinking_env "example_blob ''template''" 220 "''template''" "''template''"] fits
    by blast
  have all: "\<forall>q \<in> set quality_steps. \<exists>cb.
      compressWebpBlob example_env (example_blob ''template'') q = Inr cb \<and>
      \<not> blobSizeInKB cb \<le> 220"
    using compress_loop_bounded
      [of example_env "example_blob ''template''" 220 "''template''" "''template''"] never
    by blast
  show ?thesis
    using fits never some all first last by blast
qed

section \<open>Assets over the byte budget\<close>

lemma sendData_open:
  assumes "dataChannel s \<noteq> None"
  shows "sendData d s = emit (Console ''data.json file sent to the model'')
     (send (ConversationItemCreate [InputText ''Tactile drawing data:'', InputText d]) s)"
  using assms by (auto simp add: sendData_def)

lemma sendFileContent_try_too_large:
  assumes "getFileData en = Inr d" "getFileTemplate en = Inr t" "getFileColorMap en = Inr c"
    and "getSendableImage en t = Inr None \<or> getSendableImage en c = Inr None"
  shows "\<exists>err. sendFileContent_try en s = (Some err, sendData (data_json d) s)"
  using assms
  by (auto simp add: sendFileContent_try_def Let_def truthy_def split: sum.splits option.splits)

text \<open>
  Claim C4. When the three files were fetched and \<open>getSendableImage\<close> returns absent for
  the template or for the color map, \<open>sendFileContent\<close> ends in \<open>stopSession\<close>. Its effects
  are the message with the drawing's data (which precedes the images), the logged failure,
  and the teardown: the release of every transport object that was held (the data channel
  closed, the tracks stopped, the peer connection closed, the audio element removed) and the
  line "Session closed"; all four objects are forgotten. Neither image is sent, and no
  grayscale template is cached.
\<close>

theorem oversized_asset_aborts_bootstrap:
  assumes "dataChannel s \<noteq> None"
    and "getFileData en = Inr d" "getFileTemplate en = Inr t" "getFileColorMap en = Inr c"
    and "getSendableImage en t = Inr None \<or> getSendableImage en c = Inr None"
  shows "torn_down s (sendFileContent en s) \<and>
    (\<exists>err. trace (sendFileContent en s) =
       trace s @ [Sent (ConversationItemCreate [InputText ''Tactile drawing data:'',
                                                InputText (data_json d)]),
                  Console ''data.json file sent to the model'',
                  Console (''Failed to prepare or send file content: '' @ exn_message err)] @
         release_events s) \<and>
    dataChannel (sendFileContent en s) = None \<and>
    localStream (sendFileContent en s) = None \<and>
    peerConnection (sendFileContent en s) = None \<and>
    audioElement (sendFileContent en s) = None \<and>
    sent (trace (sendFileContent en s)) =
      sent (trace s) @ [ConversationItemCreate [InputText ''Tactile drawing data:'',
                                                 InputText (data_json d)]] \<and>
    grayScaleBase64Template (sendFileContent en s) = grayScaleBase64Template s"
proof -
  obtain err where try_eq: "sendFileContent_try en s = (Some err, sendData (data_json d) s)"
    using sendFileContent_try_too_large [OF assms(2-5)] by blast
  define s1 where "s1 = emit (Console (''Failed to prepare or send file content: '' @ exn_message err))
        (sendData (data_json d) s)"
  have res: "sendFileContent en s = stopSession s1"
    using assms(1) by (auto simp add: sendFileContent_def sendFileContent_resume_def try_eq s1_def)
  have s1: "trace s1 = trace s @ [Sent (ConversationItemCreate [InputText ''Tactile drawing data:'',
                                                InputText (data_json d)]),
                  Console ''data.json file sent to the model'',
                  Console (''Failed to prepare or send file content: '' @ exn_message err)]"
    "dataChannel s1 = dataChannel s" "localStream s1 = localStream s"
    "peerConnection s1 = peerConnection s" "audioElement s1 = audioElement s"
    "(elements s1 = None) = (elements s = None)"
    "grayScaleBase64Template s1 = grayScaleBase64Template s"
    by (simp_all add: s1_def sendData_open [OF assms(1)])
  have td: "torn_down s (stopSession s1)"
    by (rule torn_down_stopSession [OF s1(1-5)])
  have rel: "release_events s1 = release_events s"
    by (rule release_events_cong) (simp_all add: s1)
  have tr: "trace (stopSession s1) = trace s @ [Sent (ConversationItemCreate [InputText ''Tactile drawing data:'',
                                                InputText (data_json d)]),
                  Console ''data.json file sent to the model'',
                  Console (''Failed to prepare or send file content: '' @ exn_message err)] @
         release_events s"
    by (simp add: s1 rel)
  have "sent (trace (stopSession s1)) =
      sent (trace s) @ [ConversationItemCreate [InputText ''Tactile drawing data:'',
                                                 InputText (data_json d)]]"
    unfolding tr by (simp add: sent_append)
  then show ?thesis
    unfolding res using td tr by (auto simp add: s1)
qed

theorem oversized_asset_aborts_bootstrap_witness:
  "dataChannel example_state \<noteq> None \<and>
   getSendableImage example_env ''template'' = Inr None \<and>
   torn_down example_state (sendFileContent example_env example_state) \<and>
   dataChannel (sendFileContent example_env example_state) = None \<and>
   localStream (sendFileContent example_env example_state) = None \<and>
   peerConnection (sendFileContent example_env example_state) = None \<and>
   audioElement (sendFileContent example_env example_state) = None \<and>
   sent (trace (sendFileContent example_env example_state)) =
     [ConversationItemCreate [InputText ''Tactile drawing data:'', InputText ''{}'']] \<and>
   DataChannelClosed \<in> set (trace (sendFileContent example_env example_state)) \<and>
   TracksStopped \<in> set (trace (sendFileContent example_env example_state)) \<and>
   PeerConnectionClosed \<in> set (trace (sendFileContent example_env example_state)) \<and>
   AudioElementRemoved \<in> set (trace (sendFileContent example_env example_state))"
proof -
  note t = oversized_asset_aborts_bootstrap [of example_state example_env
      "\<lparr>data_json = ''{}'', data_metadata_lang = Some (Some ''it-IT'')\<rparr>" "''template''" "''colorMap''"]
  have p: "dataChannel example_state \<noteq> None"
    "getFileData example_env = Inr \<lparr>data_json = ''{}'', data_metadata_lang = Some (Some ''it-IT'')\<rparr>"
    "getFileTemplate example_env = Inr ''template''"
    "getFileColorMap example_env = Inr ''colorMap''"
    "getSendableImage example_env ''template'' = Inr None \<or>
     getSendableImage example_env ''colorMap'' = Inr None"
    by (simp_all add: example_getSendableImage)
  note r = t [OF p]
  have rel: "release_events example_state =
      [DataChannelClosed, TracksStopped, PeerConnectionClosed, AudioElementRemoved,
       Console ''Session closed'']"
    by (simp add: release_events_def ui_events_def)
  obtain err where tr: "trace (sendFileContent example_env example_state) =
       trace example_state @ [Sent (ConversationItemCreate [InputText ''Tactile drawing data:'',
            InputText (data_json \<lparr>data_json = ''{}'', data_metadata_lang = Some (Some ''it-IT'')\<rparr>)]),
                  Console ''data.json file sent to the model'',
                  Console (''Failed to prepare or send file content: '' @ exn_message err)] @
         release_events example_state"
    using r [THEN conjunct2, THEN conjunct1] by blast
  have ev: "DataChannelClosed \<in> set (trace (sendFileContent example_env example_state))"
    "TracksStopped \<in> set (trace (sendFileContent example_env example_state))"
    "PeerConnectionClosed \<in> set (trace (sendFileContent example_env example_state))"
    "AudioElementRemoved \<in> set (trace (sendFileContent example_env example_state))"
    unfolding tr rel by simp_all
  have s: "sent (trace (sendFileContent example_env example_state)) =
     [ConversationItemCreate [InputText ''Tactile drawing data:'', InputText ''{}'']]"
    using r by simp
  show ?thesis
    using p(1) example_getSendableImage [of "''template''"] r ev s by blast
qed

end
